theory Spec2Isabelle
  imports Main
begin

section \<open>The ember-intl service (addon/services/intl.js)\<close>

text \<open>
  The service object is modelled as a record that is passed through every operation and
  returned updated.  A JavaScript exception is a value of type \<open>error\<close>; an operation
  that can throw returns \<open>error + result\<close>, with \<open>Inl\<close> for the exception.
\<close>

subsection \<open>JavaScript values that reach the service\<close>

text \<open>
  A locale argument (\<open>localeName\<close>) as the callers may pass it.  \<open>Other truthy\<close> stands for
  every value that is neither \<open>undefined\<close>, \<open>null\<close>, a string nor an array (a number, a
  boolean, a plain object, ...); it only records whether JavaScript treats the value as
  true, since that is all the service asks of it.
\<close>

datatype js_arg = Undefined | Null | Str string | Arr "string list" | Other bool

fun truthy :: "js_arg \<Rightarrow> bool" where
  "truthy Undefined = False"
| "truthy Null = False"
| "truthy (Str s) = (s \<noteq> [])"
| "truthy (Arr xs) = True"
| "truthy (Other b) = b"

text \<open>
  The locale that the formatters hand to \<open>getIntl\<close>: \<open>undefined\<close>, \<open>null\<close>, one name or
  an array of names.
\<close>

datatype locale_ref = LUndefined | LNull | LName string | LNames "string list"

text \<open>The error codes of \<open>IntlErrorCode\<close> in \<open>@formatjs/intl\<close>.\<close>

datatype IntlErrorCode =
  FORMAT_ERROR | UNSUPPORTED_FORMATTER | INVALID_CONFIG | MISSING_DATA | MISSING_TRANSLATION

text \<open>
  An error object handed to the error callback.  \<open>err_code\<close> is \<open>None\<close> for an object
  without a \<open>code\<close> property.
\<close>

record intl_error =
  err_code :: "IntlErrorCode option"
  err_message :: string

text \<open>The assertions of the service, named after their messages.\<close>

datatype assertion =
  LocaleUnset string  \<comment> \<open>\<open>locale is unset, cannot lookup '<key>'\<close>\<close>
| NoLocaleSet         \<comment> \<open>\<open>no locale has been set!\<close>\<close>

datatype error =
  AssertionError assertion  \<comment> \<open>\<open>assert\<close> of \<open>@ember/debug\<close> with a false condition\<close>
| TypeError                 \<comment> \<open>a property read on \<open>undefined\<close> or \<open>null\<close>, a method call on a non-string\<close>
| IntlError intl_error      \<comment> \<open>an engine error thrown again by \<open>onIntlError\<close>\<close>

subsection \<open>Plain objects and what they inherit\<close>

text \<open>
  The service keeps its translations in plain objects and reads them with
  \<open>object[name]\<close> (lines 123, 153, 154, 189 and 217).  Such a read finds the object's own
  property, and for a name that the object does not have itself, the member of
  \<open>Object.prototype\<close> with that name.  These are the names of the members of
  \<open>Object.prototype\<close> in ECMAScript.
\<close>

definition object_prototype_names :: "string list" where
  "object_prototype_names =
     [''constructor'', ''hasOwnProperty'', ''isPrototypeOf'', ''propertyIsEnumerable'',
      ''toLocaleString'', ''toString'', ''valueOf'', ''__proto__'',
      ''__defineGetter__'', ''__defineSetter__'', ''__lookupGetter__'', ''__lookupSetter__'']"

text \<open>
  The result of reading a message, when it is not \<open>undefined\<close>: a string, the member of
  \<open>Object.prototype\<close> with the given name (a function, or for \<open>__proto__\<close> the prototype
  object; none of them is a string, and JavaScript counts each as true), or some other
  value of the runtime, of which only its truth matters.
\<close>

datatype js_value = JString string | JMember string | JOther bool

fun truthy_value :: "js_value option \<Rightarrow> bool" where
  "truthy_value None = False"
| "truthy_value (Some (JString v)) = (v \<noteq> [])"
| "truthy_value (Some (JMember name)) = True"
| "truthy_value (Some (JOther b)) = b"

text \<open>
  The result of reading a locale from \<open>_messagesMap\<close>, when it is not \<open>undefined\<close>: a flat
  object of messages, given by its own properties, or the member of \<open>Object.prototype\<close>
  with the given name.
\<close>

datatype messages = Flat "string \<rightharpoonup> string" | Member string

text \<open>
  What the members of \<open>Object.prototype\<close> have as properties of their own (the \<open>name\<close> of
  the function \<open>Object\<close>, say) is a matter of the JavaScript runtime and a parameter of
  the model: \<open>runtime name key\<close> is the result of reading \<open>key\<close> from the member \<open>name\<close>,
  which is \<open>undefined\<close> (\<open>None\<close>), a value, or an exception.
\<close>

type_synonym runtime = "string \<Rightarrow> string \<Rightarrow> error + js_value option"

subsection \<open>Helpers of the repository that the service imports\<close>

text \<open>
  Modelled from the spec: \<open>normalizeLocale\<close> (\<open>-private/utils/normalize-locale\<close>) is not
  part of the source file.  The spec describes it as a pure, total function on strings that
  gives the same canonical output for inputs differing only in letter case or separator
  style: here, lower case and \<open>-\<close> for \<open>_\<close>.  No theorem below depends on more than its
  being a function.
\<close>

definition lower_char :: "char \<Rightarrow> char" where
  "lower_char c =
     (let n = (of_char c :: nat) in if 65 \<le> n \<and> n \<le> 90 then char_of (n + 32) else c)"

definition normalizeLocale :: "string \<Rightarrow> string" where
  "normalizeLocale raw = map (\<lambda>c. if c = CHR ''_'' then CHR ''-'' else lower_char c) raw"

text \<open>
  Modelled from the spec: \<open>flatten\<close> (\<open>-private/utils/flatten\<close>) is not part of the source
  file.  The spec: a tree of string-or-nested-mapping nodes becomes a flat mapping of
  dot-joined path to leaf string.  A payload is the list of the entries of an object, in
  insertion order; where two paths coincide the later assignment stays.
\<close>

datatype nested = Leaf string | Nested "(string \<times> nested) list"

fun flatten_entries :: "(string \<times> nested) list \<Rightarrow> (string \<times> string) list" where
  "flatten_entries [] = []"
| "flatten_entries ((key, Leaf v) # rest) = (key, v) # flatten_entries rest"
| "flatten_entries ((key, Nested kids) # rest) =
     map (\<lambda>(suffix, v). (key @ ''.'' @ suffix, v)) (flatten_entries kids) @ flatten_entries rest"

definition flatten :: "(string \<times> nested) list \<Rightarrow> (string \<rightharpoonup> string)" where
  "flatten payload = map_of (rev (flatten_entries payload))"

text \<open>
  Modelled from the spec: \<open>isArrayEqual\<close> (\<open>-private/utils/is-array-equal\<close>) is not part of
  the source file.  The spec: the proposed sequence is compared element-wise against the
  current active-locale sequence.  The second argument is \<open>this._locale\<close>, which is \<open>null\<close>
  (\<open>None\<close>) until the first assignment; \<open>null\<close> is equal to no sequence.
\<close>

definition isArrayEqual :: "string list \<Rightarrow> string list option \<Rightarrow> bool" where
  "isArrayEqual a b = (case b of None \<Rightarrow> False | Some b' \<Rightarrow> list_all2 (=) a b')"

subsection \<open>The state of the service and of its host\<close>

text \<open>
  The configuration object that \<open>createIntl\<close> of \<open>@formatjs/intl\<close> receives.  The
  \<open>onError\<close> field is always \<open>this.onIntlError\<close> and is not stored.  \<open>cfg_messages\<close> is the
  value of \<open>this._messagesMap[locale]\<close> when the configuration is built (\<open>None\<close> for
  \<open>undefined\<close>).
\<close>

record 'f intl_config =
  cfg_locale :: locale_ref
  cfg_defaultLocale :: locale_ref
  cfg_formats :: 'f
  cfg_defaultFormats :: 'f
  cfg_messages :: "messages option"

text \<open>
  An engine handle: the object that \<open>createIntl\<close> returns.  \<open>intl_id\<close> is its identity as
  an object (two handles are the same object iff their ids are equal).
\<close>

record 'f intl =
  intl_id :: nat
  intl_config :: "'f intl_config"

text \<open>
  The fields of the service (\<open>svc_x\<close> is \<open>this.x\<close> or \<open>this._x\<close>), followed by the part of
  the host that the service acts on: the run loop of \<open>@ember/runloop\<close>, the listeners of
  the \<open>localeChanged\<close> event and the document.

  \<^item> \<open>svc_messagesMap\<close>: \<open>_messagesMap\<close>, of type
    \<open>Record<string, Record<string, string>>\<close>: the own properties of the object and
    of the flat objects in it; the reads below add what a plain object inherits.  The
    flat message objects are never written after they are stored, so a reference to one
    is modelled by its value.
  \<^item> \<open>svc_locale\<close>: \<open>_locale\<close>, \<open>None\<close> for \<open>null\<close>.
  \<^item> \<open>svc_timer\<close>: \<open>_timer\<close>, the handle that \<open>next\<close> returned, \<open>None\<close> for \<open>null\<close>.
  \<^item> \<open>svc_intls\<close>: the cache inside the memoized \<open>this.createIntl\<close>, keyed by the
    serialized arguments.
  \<^item> \<open>svc_created\<close>: every handle that the engine constructor has returned to the
    service, oldest first.
  \<^item> \<open>scheduled\<close>: the timers of the run loop that have not fired yet; every one of them
    carries the callback of the \<open>locale\<close> setter.  \<open>next_timer\<close> is the id the run loop
    gives out next.
  \<^item> \<open>notifications\<close>: one entry for each \<open>localeChanged\<close> event triggered so far, holding
    the value of \<open>_locale\<close> that the listeners find.
  \<^item> \<open>has_dom\<close>, \<open>html_lang\<close>: whether \<open>getDOM\<close> finds a document, and the \<open>lang\<close>
    attribute of its root element.
\<close>

record 'f service =
  svc_formats :: 'f
  svc_messagesMap :: "string \<rightharpoonup> (string \<rightharpoonup> string)"
  svc_locale :: "string list option"
  svc_timer :: "nat option"
  svc_intls :: "(locale_ref \<times> 'f) \<rightharpoonup> 'f intl"
  svc_created :: "'f intl list"
  scheduled :: "nat list"
  next_timer :: nat
  notifications :: "string list option list"
  has_dom :: bool
  html_lang :: "string option"

text \<open>
  The object with the fields as \<open>Service.extend\<close> declares them (lines 84 to 97), an
  idle run loop and \<open>formats\<close> holding the format configuration.
\<close>

definition new_service :: "'f \<Rightarrow> bool \<Rightarrow> 'f service" where
  "new_service fmts with_dom =
     \<lparr> svc_formats = fmts, svc_messagesMap = Map.empty, svc_locale = None, svc_timer = None,
       svc_intls = Map.empty, svc_created = [],
       scheduled = [], next_timer = 0, notifications = [], has_dom = with_dom, html_lang = None \<rparr>"

subsection \<open>Candidate locales, \<open>lookup\<close> and \<open>exists\<close>\<close>

text \<open>
  \<open>_localeWithDefault\<close> (lines 221 to 233).  \<open>None\<close> is the value \<open>undefined\<close> that the
  function returns when it falls off its end.
\<close>

definition localeWithDefault :: "'f service \<Rightarrow> js_arg \<Rightarrow> string list option" where
  "localeWithDefault s localeName =
     (if \<not> truthy localeName then
        Some (case svc_locale s of None \<Rightarrow> [] | Some active \<Rightarrow> active)
      else case localeName of
        Str name \<Rightarrow> Some (map normalizeLocale [name])
      | Arr names \<Rightarrow> Some (map normalizeLocale names)
      | _ \<Rightarrow> None)"

text \<open>
  \<open>this._messagesMap[localeName]\<close>: the flat object stored for the locale, else the
  inherited member if the name is one of \<open>Object.prototype\<close>, else \<open>undefined\<close> (\<open>None\<close>).
\<close>

definition messagesMap_get :: "'f service \<Rightarrow> string \<Rightarrow> messages option" where
  "messagesMap_get s localeName =
     (case svc_messagesMap s localeName of
        Some flat \<Rightarrow> Some (Flat flat)
      | None \<Rightarrow>
          if localeName \<in> set object_prototype_names then Some (Member localeName) else None)"

text \<open>\<open>this._messagesMap[localeName] || {}\<close>; an object is never false.\<close>

definition messages_of :: "'f service \<Rightarrow> string \<Rightarrow> messages" where
  "messages_of s localeName =
     (case messagesMap_get s localeName of None \<Rightarrow> Flat Map.empty | Some messages \<Rightarrow> messages)"

text \<open>\<open>messages[key]\<close>, for the flat object of a locale, the empty object \<open>{}\<close> or an
  inherited member.\<close>

fun read_message :: "runtime \<Rightarrow> messages \<Rightarrow> string \<Rightarrow> error + js_value option" where
  "read_message rt (Flat flat) key =
     Inr (case flat key of
            Some v \<Rightarrow> Some (JString v)
          | None \<Rightarrow> if key \<in> set object_prototype_names then Some (JMember key) else None)"
| "read_message rt (Member name) key = rt name key"

text \<open>
  The loop of \<open>lookup\<close> (lines 152 to 159) over the remaining locale names; \<open>None\<close> is
  the \<open>undefined\<close> that the function returns when the loop ends.
\<close>

fun lookup_loop ::
  "runtime \<Rightarrow> 'f service \<Rightarrow> string \<Rightarrow> string list \<Rightarrow> error + js_value option" where
  "lookup_loop rt s key [] = Inr None"
| "lookup_loop rt s key (localeName # rest) =
     (case read_message rt (messages_of s localeName) key of
        Inl e \<Rightarrow> Inl e
      | Inr (Some translation) \<Rightarrow> Inr (Some translation)
      | Inr None \<Rightarrow> lookup_loop rt s key rest)"

text \<open>
  \<open>lookup\<close> (lines 149 to 160).  Reading \<open>localeNames.length\<close> throws a \<open>TypeError\<close> when
  \<open>_localeWithDefault\<close> returned \<open>undefined\<close>.
\<close>

definition lookup :: "runtime \<Rightarrow> 'f service \<Rightarrow> string \<Rightarrow> js_arg \<Rightarrow> error + js_value option" where
  "lookup rt s key localeName =
     (case localeWithDefault s localeName of
        None \<Rightarrow> Inl TypeError
      | Some localeNames \<Rightarrow> lookup_loop rt s key localeNames)"

text \<open>
  \<open>exists\<close> (lines 184 to 190).  The assertion is that of a debug build, where \<open>assert\<close>
  throws on a false condition.  \<open>some\<close> stops at the first locale for which the callback
  gives a value that JavaScript counts as true.
\<close>

fun exists_some :: "runtime \<Rightarrow> 'f service \<Rightarrow> string \<Rightarrow> string list \<Rightarrow> error + bool" where
  "exists_some rt s key [] = Inr False"
| "exists_some rt s key (localeName # rest) =
     (case read_message rt (messages_of s localeName) key of
        Inl e \<Rightarrow> Inl e
      | Inr v \<Rightarrow> if truthy_value v then Inr True else exists_some rt s key rest)"

definition exists :: "runtime \<Rightarrow> 'f service \<Rightarrow> string \<Rightarrow> js_arg \<Rightarrow> error + bool" where
  "exists rt s key localeName =
     (case localeWithDefault s localeName of
        None \<Rightarrow> Inl (AssertionError (LocaleUnset key))
      | Some localeNames \<Rightarrow>
          if localeNames = [] then Inl (AssertionError (LocaleUnset key))
          else exists_some rt s key localeNames)"

subsection \<open>The active locale and its change notification\<close>

text \<open>\<open>makeArray\<close> of \<open>@ember/array\<close>: nothing for \<open>undefined\<close> and \<open>null\<close>, an array as it is,
  any other value as the only element.\<close>

fun makeArray :: "js_arg \<Rightarrow> js_arg list" where
  "makeArray Undefined = []"
| "makeArray Null = []"
| "makeArray (Arr names) = map Str names"
| "makeArray v = [v]"

text \<open>
  \<open>.map(normalizeLocale)\<close> on the result.  \<open>normalizeLocale\<close> is a function of strings;
  for an element that is not a string the call is a \<open>TypeError\<close>.
\<close>

fun normalize_each :: "js_arg list \<Rightarrow> error + string list" where
  "normalize_each [] = Inr []"
| "normalize_each (Str name # rest) =
     (case normalize_each rest of
        Inl e \<Rightarrow> Inl e
      | Inr names \<Rightarrow> Inr (normalizeLocale name # names))"
| "normalize_each (v # rest) = Inl TypeError"

text \<open>
  \<open>cancel\<close> and \<open>next\<close> of \<open>@ember/runloop\<close>.  \<open>cancel\<close> removes the timer with the given
  handle, if it is still waiting; \<open>next\<close> queues the callback for the next turn and returns
  a handle that was never given out before.
\<close>

definition runloop_cancel :: "nat option \<Rightarrow> 'f service \<Rightarrow> 'f service" where
  "runloop_cancel timer s =
     (case timer of None \<Rightarrow> s | Some t \<Rightarrow> s\<lparr>scheduled := removeAll t (scheduled s)\<rparr>)"

definition runloop_next :: "'f service \<Rightarrow> nat \<times> 'f service" where
  "runloop_next s =
     (next_timer s,
      s\<lparr>scheduled := scheduled s @ [next_timer s], next_timer := Suc (next_timer s)\<rparr>)"

text \<open>The setter of the computed property \<open>locale\<close> (lines 38 to 51); it returns
  \<open>this._locale\<close>, which is \<open>svc_locale\<close> of the state returned here.\<close>

definition set_locale :: "'f service \<Rightarrow> js_arg \<Rightarrow> error + 'f service" where
  "set_locale s localeName =
     (case normalize_each (makeArray localeName) of
        Inl e \<Rightarrow> Inl e
      | Inr proposed \<Rightarrow>
          if \<not> isArrayEqual proposed (svc_locale s) then
            (let s1 = s\<lparr>svc_locale := Some proposed\<rparr>;
                 s2 = runloop_cancel (svc_timer s1) s1;
                 (timer, s3) = runloop_next s2
             in Inr (s3\<lparr>svc_timer := Some timer\<rparr>))
          else Inr s)"

text \<open>The getter of \<open>locale\<close> (lines 52 to 54): an array of names, or \<open>null\<close>.\<close>

definition get_locale :: "'f service \<Rightarrow> locale_ref" where
  "get_locale s = (case svc_locale s of None \<Rightarrow> LNull | Some names \<Rightarrow> LNames names)"

text \<open>\<open>setLocale\<close> (lines 193 to 200).\<close>

definition setLocale :: "'f service \<Rightarrow> js_arg \<Rightarrow> error + 'f service" where
  "setLocale s locale =
     (if \<not> truthy locale then Inl (AssertionError NoLocaleSet) else set_locale s locale)"

text \<open>
  \<open>_updateDocumentLanguage\<close> (lines 236 to 244).  Destructuring \<open>null\<close> throws; the first
  element of an empty array is \<open>undefined\<close>, which \<open>setAttribute\<close> writes as a string.
\<close>

definition updateDocumentLanguage :: "'f service \<Rightarrow> string list option \<Rightarrow> error + 'f service" where
  "updateDocumentLanguage s locales =
     (if has_dom s then
        (case locales of
           None \<Rightarrow> Inl TypeError
         | Some [] \<Rightarrow> Inr (s\<lparr>html_lang := Some ''undefined''\<rparr>)
         | Some (primaryLocale # _) \<Rightarrow> Inr (s\<lparr>html_lang := Some primaryLocale\<rparr>))
      else Inr s)"

text \<open>The callback that the setter schedules (lines 44 to 47).\<close>

definition locale_callback :: "'f service \<Rightarrow> error + 'f service" where
  "locale_callback s =
     updateDocumentLanguage (s\<lparr>notifications := notifications s @ [svc_locale s]\<rparr>) (svc_locale s)"

text \<open>One turn of the run loop: every waiting timer fires, in the order of scheduling.\<close>

fun run_timers :: "nat list \<Rightarrow> 'f service \<Rightarrow> error + 'f service" where
  "run_timers [] s = Inr s"
| "run_timers (t # ts) s =
     (case locale_callback s of Inl e \<Rightarrow> Inl e | Inr s' \<Rightarrow> run_timers ts s')"

definition run_next_turn :: "'f service \<Rightarrow> error + 'f service" where
  "run_next_turn s = run_timers (scheduled s) (s\<lparr>scheduled := []\<rparr>)"

text \<open>\<open>willDestroy\<close> (lines 132 to 135).\<close>

definition willDestroy :: "'f service \<Rightarrow> 'f service" where
  "willDestroy s = runloop_cancel (svc_timer s) s"

subsection \<open>The translation store\<close>

text \<open>\<open>addTranslations\<close> (lines 207 to 209) and \<open>translationsFor\<close> (lines 216 to 218).\<close>

definition addTranslations :: "'f service \<Rightarrow> string \<Rightarrow> (string \<times> nested) list \<Rightarrow> 'f service" where
  "addTranslations s localeName payload =
     s\<lparr>svc_messagesMap := (svc_messagesMap s)(normalizeLocale localeName \<mapsto> flatten payload)\<rparr>"

definition translationsFor :: "'f service \<Rightarrow> string \<Rightarrow> messages option" where
  "translationsFor s localeName = messagesMap_get s (normalizeLocale localeName)"

subsection \<open>The formatting engine and its cache\<close>

text \<open>
  The formatting engine of \<open>@formatjs/intl\<close> is outside the repository.  What the service
  can observe of it is a parameter of the model: the errors that the constructor and the
  format methods report to the \<open>onError\<close> callback of the configuration, in order, and the
  string that a format method returns.
\<close>

datatype formatter = FormatRelative | FormatMessage | FormatNumber | FormatTime | FormatDate

record 'o format_options =
  opt_locale :: js_arg  \<comment> \<open>\<open>formatOptions.locale\<close>, \<open>Undefined\<close> when the property is absent\<close>
  opt_more :: 'o

record ('f, 'v, 'o) engine =
  construct_reports :: "'f intl_config \<Rightarrow> intl_error list"
  format_reports :: "formatter \<Rightarrow> 'f intl \<Rightarrow> 'v \<Rightarrow> 'o format_options option \<Rightarrow> intl_error list"
  format_output :: "formatter \<Rightarrow> 'f intl \<Rightarrow> 'v \<Rightarrow> 'o format_options option \<Rightarrow> string"

text \<open>\<open>onIntlError\<close> (lines 137 to 141).\<close>

definition onIntlError :: "intl_error \<Rightarrow> error + unit" where
  "onIntlError err =
     (if err_code err \<noteq> Some MISSING_TRANSLATION then Inl (IntlError err) else Inr ())"

text \<open>The engine reporting a sequence of errors: the first one that the callback throws
  ends the engine's call.\<close>

fun report_all :: "intl_error list \<Rightarrow> error + unit" where
  "report_all [] = Inr ()"
| "report_all (err # rest) =
     (case onIntlError err of Inl e \<Rightarrow> Inl e | Inr _ \<Rightarrow> report_all rest)"

text \<open>
  The key under which \<open>fast-memoize\<close> stores a result is the JSON text of the arguments,
  where \<open>undefined\<close> is written as \<open>null\<close>.  The name of the property that
  \<open>this._messagesMap[locale]\<close> reads is the locale converted to a string.
\<close>

fun json_locale :: "locale_ref \<Rightarrow> locale_ref" where
  "json_locale LUndefined = LNull"
| "json_locale locale = locale"

fun join_commas :: "string list \<Rightarrow> string" where
  "join_commas [] = []"
| "join_commas [name] = name"
| "join_commas (name # rest) = name @ '','' @ join_commas rest"

fun property_key :: "locale_ref \<Rightarrow> string" where
  "property_key LUndefined = ''undefined''"
| "property_key LNull = ''null''"
| "property_key (LName name) = name"
| "property_key (LNames names) = join_commas names"

text \<open>
  \<open>this.createIntl\<close>, the memoized function of lines 115 to 127.  A call that finds its
  key in the cache returns the stored handle.  Otherwise the engine is constructed; when
  the constructor throws nothing is stored, and when it returns, the new handle is stored
  and returned.
\<close>

definition createIntl ::
  "('f, 'v, 'o) engine \<Rightarrow> 'f service \<Rightarrow> locale_ref \<Rightarrow> 'f \<Rightarrow> error + ('f intl \<times> 'f service)" where
  "createIntl engine s locale formats =
     (case svc_intls s (json_locale locale, formats) of
        Some cached \<Rightarrow> Inr (cached, s)
      | None \<Rightarrow>
          (let config = \<lparr> cfg_locale = locale, cfg_defaultLocale = locale,
                          cfg_formats = formats, cfg_defaultFormats = formats,
                          cfg_messages = messagesMap_get s (property_key locale) \<rparr>
           in case report_all (construct_reports engine config) of
                Inl e \<Rightarrow> Inl e
              | Inr _ \<Rightarrow>
                  (let created = \<lparr> intl_id = length (svc_created s), intl_config = config \<rparr>
                   in Inr (created,
                        s\<lparr>svc_intls := (svc_intls s)((json_locale locale, formats) \<mapsto> created),
                          svc_created := svc_created s @ [created]\<rparr>))))"

text \<open>\<open>getIntl\<close> (lines 165 to 167); \<open>primary\<close> is
  \<open>Array.isArray(locale) ? locale[0] : locale\<close>.\<close>

fun primary :: "locale_ref \<Rightarrow> locale_ref" where
  "primary (LNames []) = LUndefined"
| "primary (LNames (first # _)) = LName first"
| "primary locale = locale"

definition getIntl ::
  "('f, 'v, 'o) engine \<Rightarrow> 'f service \<Rightarrow> locale_ref \<Rightarrow> error + ('f intl \<times> 'f service)" where
  "getIntl engine s locale = createIntl engine s (primary locale) (svc_formats s)"

subsection \<open>The formatting entry points\<close>

text \<open>
  Modelled from the spec: the \<open>format\<close> method of the formatter classes
  (\<open>-private/formatters\<close>) is not part of the source file.  The service gives each
  formatter its \<open>getIntl\<close> (line 249); by the spec the formatter fetches the engine for the
  locale it is given and delegates the formatting to it, with the caller's options
  unchanged.  A state comes back also when the call throws, since an engine constructed
  on the way stays in the cache.
\<close>

definition formatter_format ::
  "('f, 'v, 'o) engine \<Rightarrow> formatter \<Rightarrow> 'f service \<Rightarrow> locale_ref \<Rightarrow> 'v \<Rightarrow>
     'o format_options option \<Rightarrow> (error + string) \<times> 'f service" where
  "formatter_format engine name s locale v formatOptions =
     (case getIntl engine s locale of
        Inl e \<Rightarrow> (Inl e, s)
      | Inr (intl, s') \<Rightarrow>
          (case report_all (format_reports engine name intl v formatOptions) of
             Inl e \<Rightarrow> (Inl e, s')
           | Inr _ \<Rightarrow> (Inr (format_output engine name intl v formatOptions), s')))"

text \<open>
  \<open>serviceFormatterProxy\<close> (lines 263 to 273), the body of \<open>formatRelative\<close>,
  \<open>formatMessage\<close>, \<open>formatNumber\<close>, \<open>formatTime\<close> and \<open>formatDate\<close>.  \<open>formatOptions\<close> is
  \<open>None\<close> when the caller passes none.
\<close>

definition format_locale :: "'f service \<Rightarrow> 'o format_options option \<Rightarrow> locale_ref" where
  "format_locale s formatOptions =
     (case formatOptions of
        None \<Rightarrow> get_locale s
      | Some options \<Rightarrow>
          if truthy (opt_locale options) then
            (case localeWithDefault s (opt_locale options) of
               None \<Rightarrow> LUndefined
             | Some names \<Rightarrow> LNames names)
          else get_locale s)"

definition serviceFormatterProxy ::
  "('f, 'v, 'o) engine \<Rightarrow> formatter \<Rightarrow> 'f service \<Rightarrow> 'v \<Rightarrow> 'o format_options option \<Rightarrow>
     (error + string) \<times> 'f service" where
  "serviceFormatterProxy engine name s v formatOptions =
     formatter_format engine name s (format_locale s formatOptions) v formatOptions"

subsection \<open>Invariants of the reachable states\<close>

text \<open>
  The run loop holds at most one timer of the service, and \<open>_timer\<close> is its handle; a
  timer only waits once a locale has been stored, and its handle is one that the run loop
  has given out.
\<close>

definition pending_inv :: "'f service \<Rightarrow> bool" where
  "pending_inv s =
     (case scheduled s of
        [] \<Rightarrow> True
      | [t] \<Rightarrow> svc_timer s = Some t \<and> svc_locale s \<noteq> None \<and> t < next_timer s
      | _ \<Rightarrow> False)"

text \<open>
  The key of the arguments that a handle was constructed for.  The cache holds exactly
  the handles that were constructed, no two of them for the same key, and the identity
  of a handle is its position among them.
\<close>

definition cache_key :: "'f intl \<Rightarrow> locale_ref \<times> 'f" where
  "cache_key created =
     (json_locale (cfg_locale (intl_config created)), cfg_formats (intl_config created))"

definition cache_inv :: "'f service \<Rightarrow> bool" where
  "cache_inv s =
     (svc_intls s = map_of (map (\<lambda>created. (cache_key created, created)) (svc_created s)) \<and>
      distinct (map cache_key (svc_created s)) \<and>
      map intl_id (svc_created s) = [0..<length (svc_created s)])"

text \<open>
  Every handle of the state is one that the engine let the service construct: the error
  callback threw none of the reports of its construction.
\<close>

definition built_inv :: "('f, 'v, 'o) engine \<Rightarrow> 'f service \<Rightarrow> bool" where
  "built_inv engine s =
     list_all (\<lambda>created. report_all (construct_reports engine (intl_config created)) = Inr ())
       (svc_created s)"

text \<open>
  What the constructor of \<open>@formatjs/intl\<close> does with a configuration that has no
  locale: it reports an error with the code \<open>INVALID_CONFIG\<close> (\<open>"locale" was not
  configured\<close>) to \<open>onError\<close>, and no report before it is of a kind that the callback
  throws.
\<close>

definition reports_missing_locale :: "('f, 'v, 'o) engine \<Rightarrow> bool" where
  "reports_missing_locale engine =
     (\<forall>config. cfg_locale config = LUndefined \<or> cfg_locale config = LNull \<longrightarrow>
        (\<exists>err. find (\<lambda>e. err_code e \<noteq> Some MISSING_TRANSLATION)
                 (construct_reports engine config) = Some err \<and>
               err_code err = Some INVALID_CONFIG))"

text \<open>
  The reads of a key in the candidates stay within own properties: the key is not a name
  of \<open>Object.prototype\<close>, and neither is a candidate that has no map.
\<close>

definition own_names :: "'f service \<Rightarrow> string \<Rightarrow> string list \<Rightarrow> bool" where
  "own_names s key candidates =
     (key \<notin> set object_prototype_names \<and>
      list_all (\<lambda>l. svc_messagesMap s l = None \<longrightarrow> l \<notin> set object_prototype_names) candidates)"

subsection \<open>Engines and stores for the examples\<close>

text \<open>An engine that reports nothing and prints the name of the locale it was built for.\<close>

definition quiet_engine :: "(unit, string, unit) engine" where
  "quiet_engine =
     \<lparr> construct_reports = (\<lambda>config. []),
       format_reports = (\<lambda>name created v formatOptions. []),
       format_output = (\<lambda>name created v formatOptions.
         property_key (cfg_locale (intl_config created)) @ '':'' @ v) \<rparr>"

text \<open>
  An engine that formats a message id to the pattern stored for it in the messages it
  was built with.  It reports a missing translation for an id that is not among them
  (and returns the id), and a format error for the pattern \<open>{\<close>.
\<close>

definition missing_translation :: "string \<Rightarrow> intl_error" where
  "missing_translation ident = \<lparr> err_code = Some MISSING_TRANSLATION, err_message = ident \<rparr>"

definition format_error :: "string \<Rightarrow> intl_error" where
  "format_error ident = \<lparr> err_code = Some FORMAT_ERROR, err_message = ident \<rparr>"

definition message_engine :: "(unit, string, unit) engine" where
  "message_engine =
     \<lparr> construct_reports = (\<lambda>config. []),
       format_reports = (\<lambda>name created ident formatOptions.
         case cfg_messages (intl_config created) of
           Some (Flat flat) \<Rightarrow>
             (case flat ident of
                None \<Rightarrow> [missing_translation ident]
              | Some pattern \<Rightarrow> if pattern = ''{'' then [format_error ident] else [])
         | _ \<Rightarrow> [missing_translation ident]),
       format_output = (\<lambda>name created ident formatOptions.
         case cfg_messages (intl_config created) of
           Some (Flat flat) \<Rightarrow> (case flat ident of None \<Rightarrow> ident | Some pattern \<Rightarrow> pattern)
         | _ \<Rightarrow> ident) \<rparr>"

text \<open>A store with an empty map for \<open>en\<close> and, for \<open>fr\<close>, an empty translation of
  \<open>greeting\<close> and a translation of \<open>farewell\<close>.\<close>

definition two_locales :: "unit service" where
  "two_locales =
     addTranslations
       (addTranslations (new_service () False) ''en'' [])
       ''fr'' [(''greeting'', Leaf ''''), (''farewell'', Leaf ''Au revoir'')]"

text \<open>The service after \<open>setLocale([])\<close> on a new object: the assertion accepts the
  empty array, and the active locales are the empty sequence.\<close>

definition no_locales :: "unit service" where
  "no_locales =
     (case setLocale (new_service () False) (Arr []) of
        Inl e \<Rightarrow> new_service () False
      | Inr s \<Rightarrow> s)"

text \<open>An engine that reports an invalid configuration when it is constructed for no
  locale, and nothing else.\<close>

definition invalid_config :: intl_error where
  "invalid_config = \<lparr> err_code = Some INVALID_CONFIG, err_message = ''no locale'' \<rparr>"

definition strict_engine :: "(unit, string, unit) engine" where
  "strict_engine =
     \<lparr> construct_reports = (\<lambda>config.
         if cfg_locale config = LUndefined \<or> cfg_locale config = LNull
         then [invalid_config] else []),
       format_reports = (\<lambda>name created v formatOptions. []),
       format_output = (\<lambda>name created v formatOptions.
         property_key (cfg_locale (intl_config created)) @ '':'' @ v) \<rparr>"

text \<open>The service after \<open>setLocale(['en', 'fr'])\<close> on a new object with a document.\<close>

definition en_fr :: "unit service" where
  "en_fr =
     (case setLocale (new_service () True) (Arr [''en'', ''fr'']) of
        Inl e \<Rightarrow> new_service () True
      | Inr s \<Rightarrow> s)"

subsection \<open>The states that a service can be in\<close>

text \<open>
  A service starts as a new object and changes through the setter of \<open>locale\<close> (which
  \<open>setLocale\<close> and \<open>init\<close> call), through the turns of the run loop, through
  \<open>addTranslations\<close>, through \<open>getIntl\<close> (the only change that a formatting call makes)
  and through \<open>willDestroy\<close>.  A call that throws leaves the state as it was.
\<close>

inductive reachable :: "('f, 'v, 'o) engine \<Rightarrow> 'f service \<Rightarrow> bool"
  for engine :: "('f, 'v, 'o) engine" where
  reach_new: "reachable engine (new_service fmts with_dom)"
| reach_set: "reachable engine s \<Longrightarrow> set_locale s localeName = Inr s' \<Longrightarrow> reachable engine s'"
| reach_turn: "reachable engine s \<Longrightarrow> run_next_turn s = Inr s' \<Longrightarrow> reachable engine s'"
| reach_add: "reachable engine s \<Longrightarrow> reachable engine (addTranslations s localeName payload)"
| reach_intl: "reachable engine s \<Longrightarrow> getIntl engine s locale = Inr (cached, s') \<Longrightarrow>
         reachable engine s'"
| reach_destroy: "reachable engine s \<Longrightarrow> reachable engine (willDestroy s)"

section \<open>Properties\<close>

subsection \<open>Lookup with fallback\<close>

lemma messages_of_own:
  "svc_messagesMap s l = Some flat \<Longrightarrow> messages_of s l = Flat flat"
  by (simp add: messages_of_def messagesMap_get_def)

lemma messages_of_none:
  "svc_messagesMap s l = None \<Longrightarrow> l \<notin> set object_prototype_names \<Longrightarrow>
   messages_of s l = Flat Map.empty"
  by (simp add: messages_of_def messagesMap_get_def)

lemma messages_of_inherited:
  "svc_messagesMap s l = None \<Longrightarrow> l \<in> set object_prototype_names \<Longrightarrow>
   messages_of s l = Member l"
  by (simp add: messages_of_def messagesMap_get_def)

lemma read_message_own:
  assumes "key \<notin> set object_prototype_names"
    and "svc_messagesMap s l = None \<longrightarrow> l \<notin> set object_prototype_names"
  shows "read_message rt (messages_of s l) key =
           Inr (case svc_messagesMap s l of
                  None \<Rightarrow> None
                | Some flat \<Rightarrow> map_option JString (flat key))"
  using assms
  by (cases "svc_messagesMap s l")
     (simp_all add: messages_of_own messages_of_none split: option.splits)

lemma lookup_loop_own_none:
  assumes "own_names s key candidates"
    and "\<forall>l \<in> set candidates. \<forall>flat. svc_messagesMap s l = Some flat \<longrightarrow> flat key = None"
  shows "lookup_loop rt s key candidates = Inr None"
  using assms
proof (induction candidates)
  case Nil
  show ?case by simp
next
  case (Cons l rest)
  then have "read_message rt (messages_of s l) key = Inr None"
    by (simp add: own_names_def read_message_own split: option.splits)
  with Cons show ?case
    by (simp add: own_names_def)
qed

lemma lookup_loop_own_first:
  assumes "own_names s key (before @ l # after)"
    and "\<forall>b \<in> set before. \<forall>flat. svc_messagesMap s b = Some flat \<longrightarrow> flat key = None"
    and "svc_messagesMap s l = Some flat" and "flat key = Some v"
  shows "lookup_loop rt s key (before @ l # after) = Inr (Some (JString v))"
  using assms
proof (induction before)
  case Nil
  then show ?case
    by (simp add: messages_of_own)
next
  case (Cons b before)
  then have "read_message rt (messages_of s b) key = Inr None"
    by (simp add: own_names_def read_message_own split: option.splits)
  with Cons show ?case
    by (simp add: own_names_def)
qed

lemma lookup_first_defined_own:
  assumes "localeWithDefault s localeName = Some candidates"
    and "own_names s key candidates"
  shows "(\<forall>before l after flat v.
            candidates = before @ l # after \<and>
            (\<forall>b \<in> set before. \<forall>mb. svc_messagesMap s b = Some mb \<longrightarrow> mb key = None) \<and>
            svc_messagesMap s l = Some flat \<and> flat key = Some v
            \<longrightarrow> lookup rt s key localeName = Inr (Some (JString v))) \<and>
         ((\<forall>l \<in> set candidates. \<forall>flat. svc_messagesMap s l = Some flat \<longrightarrow> flat key = None)
            \<longrightarrow> lookup rt s key localeName = Inr None) \<and>
         (candidates = [] \<longrightarrow> lookup rt s key localeName = Inr None)"
  using assms lookup_loop_own_first [of s key _ _ _ _ _ rt] lookup_loop_own_none [of s key candidates rt]
  by (auto simp: lookup_def)

text \<open>
  C1 fails on the code.  No locale has a map on a new service, and yet for the key
  \<open>toString\<close> and the candidate \<open>xx\<close> the result of \<open>lookup\<close> is not \<open>undefined\<close>: line 153
  takes the empty object \<open>{}\<close> for the locale, and line 154 reads from it the function
  that every object inherits.  For a candidate that is itself named like such a member,
  \<open>constructor\<close>, the read of line 153 gives the function \<open>Object\<close>, and \<open>lookup\<close> returns
  whatever property of it the key names.  \<open>lookup\<close> returns \<open>undefined\<close> for the key
  \<open>greeting\<close>, which no object inherits.
\<close>

theorem lookup_inherited_key:
  "lookup rt (new_service fmts with_dom) ''toString'' (Str ''xx'') =
     Inr (Some (JMember ''toString'')) \<and>
   lookup rt (new_service fmts with_dom) ''name'' (Str ''constructor'') =
     rt ''constructor'' ''name'' \<and>
   lookup rt (new_service fmts with_dom) ''greeting'' (Str ''xx'') = Inr None"
proof -
  have xx: "normalizeLocale ''xx'' = ''xx''"
    by code_simp
  have constructor: "normalizeLocale ''constructor'' = ''constructor''"
    by code_simp
  have "lookup rt (new_service fmts with_dom) ''toString'' (Str ''xx'') =
          Inr (Some (JMember ''toString''))"
    by (simp add: lookup_def localeWithDefault_def xx messages_of_def messagesMap_get_def
          new_service_def object_prototype_names_def)
  moreover have "lookup rt (new_service fmts with_dom) ''name'' (Str ''constructor'') =
          rt ''constructor'' ''name''"
    by (simp add: lookup_def localeWithDefault_def constructor messages_of_def
          messagesMap_get_def new_service_def object_prototype_names_def
          split: sum.splits option.splits)
  moreover have "lookup rt (new_service fmts with_dom) ''greeting'' (Str ''xx'') = Inr None"
    by (simp add: lookup_def localeWithDefault_def xx messages_of_def messagesMap_get_def
          new_service_def object_prototype_names_def)
  ultimately show ?thesis
    by simp
qed

subsection \<open>\<open>exists\<close>\<close>

lemma exists_some_own:
  assumes "own_names s key candidates"
  shows "exists_some rt s key candidates =
           Inr (\<exists>l \<in> set candidates. \<exists>flat v.
                  svc_messagesMap s l = Some flat \<and> flat key = Some v \<and> v \<noteq> [])"
  using assms
proof (induction candidates)
  case Nil
  show ?case by simp
next
  case (Cons l rest)
  then have own: "key \<notin> set object_prototype_names"
      "svc_messagesMap s l = None \<longrightarrow> l \<notin> set object_prototype_names"
      "own_names s key rest"
    by (simp_all add: own_names_def)
  show ?case
  proof (cases "svc_messagesMap s l")
    case None
    with own Cons.IH show ?thesis
      by (simp add: read_message_own)
  next
    case (Some flat)
    with own Cons.IH show ?thesis
      by (cases "flat key") (auto simp: read_message_own)
  qed
qed

text \<open>
  Where neither the key nor a candidate without a map is a name of \<open>Object.prototype\<close>,
  \<open>exists\<close> throws exactly for the empty sequence and otherwise tells whether a
  candidate has a non-empty string for the key.
\<close>

lemma exists_fails_iff_no_candidates_own:
  assumes "localeWithDefault s localeName = Some candidates"
    and "own_names s key candidates"
  shows "(exists rt s key localeName = Inl (AssertionError (LocaleUnset key)) \<longleftrightarrow>
            candidates = []) \<and>
         (\<forall>e. exists rt s key localeName = Inl e \<longrightarrow>
            candidates = [] \<and> e = AssertionError (LocaleUnset key)) \<and>
         (candidates \<noteq> [] \<longrightarrow>
            exists rt s key localeName =
              Inr (\<exists>l \<in> set candidates. \<exists>flat v.
                     svc_messagesMap s l = Some flat \<and> flat key = Some v \<and> v \<noteq> []))"
  using assms exists_some_own [of s key candidates rt]
  by (cases "candidates = []") (auto simp: exists_def)

text \<open>
  C5 fails on the code, by the reads that make C1 fail.  On a new service no locale
  has a translation, and yet \<open>exists\<close> is true for the key \<open>toString\<close> and the
  candidate \<open>xx\<close>: line 189 reads the inherited function from the empty object \<open>{}\<close>,
  and \<open>some\<close> counts it as true.  With an empty map stored for \<open>en\<close>, as in the example
  store, the same holds for the key \<open>constructor\<close>.  The first half of the claim holds:
  without a candidate \<open>exists\<close> fails its assertion, for this key as for any other.
\<close>

theorem exists_inherited_key:
  "exists rt (new_service fmts with_dom) ''toString'' (Str ''xx'') = Inr True \<and>
   exists rt two_locales ''constructor'' (Str ''en'') = Inr True \<and>
   exists rt (new_service fmts with_dom) ''greeting'' (Str ''xx'') = Inr False \<and>
   exists rt (new_service fmts with_dom) ''toString'' Undefined =
     Inl (AssertionError (LocaleUnset ''toString''))"
proof -
  have xx: "normalizeLocale ''xx'' = ''xx''"
    by code_simp
  have en: "normalizeLocale ''en'' = ''en''"
    by code_simp
  have fr: "normalizeLocale ''fr'' = ''fr''"
    by code_simp
  have "exists rt (new_service fmts with_dom) ''toString'' (Str ''xx'') = Inr True"
    by (simp add: exists_def localeWithDefault_def xx messages_of_def messagesMap_get_def
          new_service_def object_prototype_names_def)
  moreover have "exists rt two_locales ''constructor'' (Str ''en'') = Inr True"
    by (simp add: exists_def localeWithDefault_def en fr messages_of_def messagesMap_get_def
          two_locales_def addTranslations_def new_service_def flatten_def
          object_prototype_names_def)
  moreover have "exists rt (new_service fmts with_dom) ''greeting'' (Str ''xx'') = Inr False"
    by (simp add: exists_def localeWithDefault_def xx messages_of_def messagesMap_get_def
          new_service_def object_prototype_names_def)
  moreover have "exists rt (new_service fmts with_dom) ''toString'' Undefined =
                   Inl (AssertionError (LocaleUnset ''toString''))"
    by (simp add: exists_def localeWithDefault_def new_service_def)
  ultimately show ?thesis
    by simp
qed

subsection \<open>Locale arguments of another shape\<close>

text \<open>
  C7, as the code has it.  A locale argument that is neither \<open>undefined\<close>, \<open>null\<close>, a
  string nor an array raises nothing in \<open>_localeWithDefault\<close>.  If JavaScript counts it
  as false it is treated as absent and the active locales are the result.  If it counts
  as true the result is \<open>undefined\<close>, no candidate sequence at all; then \<open>lookup\<close> throws a
  \<open>TypeError\<close>, \<open>exists\<close> fails its assertion, and a formatting entry point goes on with
  \<open>undefined\<close> as its locale.
\<close>

theorem localeWithDefault_other_shape:
  "localeWithDefault s (Other True) = None \<and>
   localeWithDefault s (Other False) =
     Some (case svc_locale s of None \<Rightarrow> [] | Some active \<Rightarrow> active) \<and>
   lookup rt s key (Other True) = Inl TypeError \<and>
   exists rt s key (Other True) = Inl (AssertionError (LocaleUnset key)) \<and>
   format_locale s (Some \<lparr>opt_locale = Other True, opt_more = more\<rparr>) = LUndefined"
  by (simp add: localeWithDefault_def lookup_def exists_def format_locale_def)

text \<open>
  The claim as the spec states it fails: for the argument \<open>Other True\<close> (the number 42,
  say) the resolution raises nothing and returns \<open>undefined\<close>, and a formatting entry
  point that gets the argument as its locale option takes \<open>undefined\<close> as its locale.
\<close>

theorem localeWithDefault_other_shape_counterexample:
  "localeWithDefault (new_service () False) (Other True) = None \<and>
   format_locale (new_service () False) (Some \<lparr>opt_locale = Other True, opt_more = ()\<rparr>) =
     LUndefined"
  by code_simp

subsection \<open>The translation store\<close>

text \<open>
  C6.  Adding translations for a locale a second time gives the state that the second
  call alone gives: the map stored for the normalized locale is the flattening of the
  second payload, whatever the first payload was.  With the same payload twice the state
  is that after one call.
\<close>

theorem addTranslations_replaces:
  "addTranslations (addTranslations s localeName p1) localeName p2 =
     addTranslations s localeName p2 \<and>
   translationsFor (addTranslations (addTranslations s localeName p1) localeName p2) localeName =
     Some (Flat (flatten p2)) \<and>
   svc_messagesMap (addTranslations (addTranslations s localeName p1) localeName p2)
     (normalizeLocale localeName) = Some (flatten p2) \<and>
   addTranslations (addTranslations s localeName p) localeName p = addTranslations s localeName p"
  by (simp add: addTranslations_def translationsFor_def messagesMap_get_def)

subsection \<open>The error callback\<close>

lemma report_all_find:
  "report_all errs =
     (case find (\<lambda>e. err_code e \<noteq> Some MISSING_TRANSLATION) errs of
        None \<Rightarrow> Inr ()
      | Some e \<Rightarrow> Inl (IntlError e))"
  by (induction errs) (auto simp: onIntlError_def)

text \<open>
  C8.  \<open>onIntlError\<close> returns normally exactly for an error whose code is
  \<open>MISSING_TRANSLATION\<close>, and throws the error it was given in every other case.  An
  engine call that reports several errors therefore ends with the first error of another
  kind, and a formatting entry point hands that error to its caller; if every report is a
  missing translation the entry point returns the engine's output.
\<close>

theorem onIntlError_swallows_missing_translation_only:
  "(onIntlError err = Inr () \<longleftrightarrow> err_code err = Some MISSING_TRANSLATION) \<and>
   (onIntlError err = Inl (IntlError err) \<longleftrightarrow> err_code err \<noteq> Some MISSING_TRANSLATION) \<and>
   report_all errs =
     (case find (\<lambda>e. err_code e \<noteq> Some MISSING_TRANSLATION) errs of
        None \<Rightarrow> Inr ()
      | Some e \<Rightarrow> Inl (IntlError e)) \<and>
   (getIntl engine s (format_locale s formatOptions) = Inr (created, s') \<longrightarrow>
      fst (serviceFormatterProxy engine name s v formatOptions) =
        (case find (\<lambda>e. err_code e \<noteq> Some MISSING_TRANSLATION)
                (format_reports engine name created v formatOptions) of
           None \<Rightarrow> Inr (format_output engine name created v formatOptions)
         | Some e \<Rightarrow> Inl (IntlError e)))"
proof -
  have "fst (serviceFormatterProxy engine name s v formatOptions) =
        (case find (\<lambda>e. err_code e \<noteq> Some MISSING_TRANSLATION)
                (format_reports engine name created v formatOptions) of
           None \<Rightarrow> Inr (format_output engine name created v formatOptions)
         | Some e \<Rightarrow> Inl (IntlError e))"
    if "getIntl engine s (format_locale s formatOptions) = Inr (created, s')"
    using that
    by (simp add: serviceFormatterProxy_def formatter_format_def report_all_find
          split: option.splits)
  then show ?thesis
    by (simp add: onIntlError_def report_all_find)
qed

text \<open>
  The example engine, built for \<open>fr\<close> in the example store, reports a missing
  translation for the message \<open>welcome\<close>, and \<open>formatMessage\<close> returns.  Once \<open>welcome\<close>
  has a pattern that the engine cannot format, the engine reports a format error, and
  \<open>formatMessage\<close> throws it.
\<close>

theorem onIntlError_swallows_missing_translation_only_witness:
  "onIntlError (missing_translation ''welcome'') = Inr () \<and>
   onIntlError (format_error ''welcome'') = Inl (IntlError (format_error ''welcome'')) \<and>
   fst (serviceFormatterProxy message_engine FormatMessage two_locales ''welcome''
          (Some \<lparr>opt_locale = Str ''fr'', opt_more = ()\<rparr>)) = Inr ''welcome'' \<and>
   fst (serviceFormatterProxy message_engine FormatMessage
          (addTranslations two_locales ''fr'' [(''welcome'', Leaf ''{'')]) ''welcome''
          (Some \<lparr>opt_locale = Str ''fr'', opt_more = ()\<rparr>)) =
     Inl (IntlError (format_error ''welcome''))"
proof -
  let ?fo = "Some \<lparr>opt_locale = Str ''fr'', opt_more = ()\<rparr>"
  let ?t = "addTranslations two_locales ''fr'' [(''welcome'', Leaf ''{'')]"
  note swallow = onIntlError_swallows_missing_translation_only
  have "err_code (missing_translation ''welcome'') = Some MISSING_TRANSLATION"
    by (simp add: missing_translation_def)
  with swallow [of "missing_translation ''welcome''", THEN conjunct1]
  have missing: "onIntlError (missing_translation ''welcome'') = Inr ()"
    by simp
  have "err_code (format_error ''welcome'') \<noteq> Some MISSING_TRANSLATION"
    by (simp add: format_error_def)
  with swallow [of "format_error ''welcome''", THEN conjunct2, THEN conjunct1]
  have other: "onIntlError (format_error ''welcome'') = Inl (IntlError (format_error ''welcome''))"
    by simp
  obtain c1 s1 where
    g1: "getIntl message_engine two_locales (format_locale two_locales ?fo) = Inr (c1, s1)"
    by (cases "getIntl message_engine two_locales (format_locale two_locales ?fo)")
       (auto simp: getIntl_def createIntl_def message_engine_def Let_def split: option.splits)
  have "case getIntl message_engine two_locales (format_locale two_locales ?fo) of
          Inl e \<Rightarrow> False
        | Inr (c, s) \<Rightarrow>
            format_reports message_engine FormatMessage c ''welcome'' ?fo =
              [missing_translation ''welcome''] \<and>
            format_output message_engine FormatMessage c ''welcome'' ?fo = ''welcome''"
    by code_simp
  with g1 have r1:
    "format_reports message_engine FormatMessage c1 ''welcome'' ?fo = [missing_translation ''welcome'']"
    "format_output message_engine FormatMessage c1 ''welcome'' ?fo = ''welcome''"
    by simp_all
  note caller = swallow [THEN conjunct2, THEN conjunct2, THEN conjunct2, rule_format]
  from caller [OF g1, of FormatMessage "''welcome''"]
  have first: "fst (serviceFormatterProxy message_engine FormatMessage two_locales ''welcome'' ?fo) =
               Inr ''welcome''"
    by (simp add: r1 missing_translation_def)
  obtain c2 s2 where
    g2: "getIntl message_engine ?t (format_locale ?t ?fo) = Inr (c2, s2)"
    by (cases "getIntl message_engine ?t (format_locale ?t ?fo)")
       (auto simp: getIntl_def createIntl_def message_engine_def Let_def split: option.splits)
  have "case getIntl message_engine ?t (format_locale ?t ?fo) of
          Inl e \<Rightarrow> False
        | Inr (c, s) \<Rightarrow>
            format_reports message_engine FormatMessage c ''welcome'' ?fo =
              [format_error ''welcome'']"
    by code_simp
  with g2 have r2:
    "format_reports message_engine FormatMessage c2 ''welcome'' ?fo = [format_error ''welcome'']"
    by simp
  from caller [OF g2, of FormatMessage "''welcome''"]
  have second: "fst (serviceFormatterProxy message_engine FormatMessage ?t ''welcome'' ?fo) =
                Inl (IntlError (format_error ''welcome''))"
    by (simp add: r2 format_error_def)
  from missing other first second show ?thesis
    by simp
qed

subsection \<open>The engine cache\<close>

lemma createIntl_hit:
  "svc_intls s (json_locale locale, formats) = Some cached \<Longrightarrow>
   createIntl engine s locale formats = Inr (cached, s)"
  by (simp add: createIntl_def)

lemma createIntl_miss:
  assumes "svc_intls s (json_locale locale, formats) = None"
    and "createIntl engine s locale formats = Inr (created, s')"
  shows "created =
           \<lparr> intl_id = length (svc_created s),
             intl_config = \<lparr> cfg_locale = locale, cfg_defaultLocale = locale,
               cfg_formats = formats, cfg_defaultFormats = formats,
               cfg_messages = messagesMap_get s (property_key locale) \<rparr> \<rparr>"
    and "s' = s\<lparr>svc_intls := (svc_intls s)((json_locale locale, formats) \<mapsto> created),
               svc_created := svc_created s @ [created]\<rparr>"
  using assms by (auto simp: createIntl_def Let_def split: sum.splits)

lemma createIntl_stored:
  "createIntl engine s locale formats = Inr (created, s') \<Longrightarrow>
   svc_intls s' (json_locale locale, formats) = Some created"
  by (auto simp: createIntl_def Let_def split: option.splits sum.splits)

lemma createIntl_keeps:
  "createIntl engine s locale formats = Inr (created, s') \<Longrightarrow>
   svc_intls s k = Some cached \<Longrightarrow> svc_intls s' k = Some cached"
  by (auto simp: createIntl_def Let_def split: option.splits sum.splits)

lemma createIntl_log:
  "createIntl engine s locale formats = Inr (created, s') \<Longrightarrow>
   svc_created s' = svc_created s \<or> svc_created s' = svc_created s @ [created]"
  by (auto simp: createIntl_def Let_def split: option.splits sum.splits)

lemma createIntl_again:
  "createIntl engine s locale formats = Inr (created, s') \<Longrightarrow>
   createIntl engine s' locale formats = Inr (created, s')"
  by (rule createIntl_hit) (rule createIntl_stored)

lemma createIntl_other_fields:
  "createIntl engine s locale formats = Inr (created, s') \<Longrightarrow>
   svc_formats s' = svc_formats s \<and> svc_messagesMap s' = svc_messagesMap s \<and>
   svc_locale s' = svc_locale s \<and> svc_timer s' = svc_timer s \<and>
   scheduled s' = scheduled s \<and> next_timer s' = next_timer s \<and>
   notifications s' = notifications s"
  by (auto simp: createIntl_def Let_def split: option.splits sum.splits)

lemma cache_inv_new_service: "cache_inv (new_service fmts with_dom)"
  by (simp add: cache_inv_def new_service_def)

lemma cache_inv_createIntl:
  assumes inv: "cache_inv s"
    and call: "createIntl engine s locale formats = Inr (created, s')"
  shows "cache_inv s'"
proof (cases "svc_intls s (json_locale locale, formats)")
  case (Some cached)
  with call have "s' = s" by (simp add: createIntl_def)
  with inv show ?thesis by simp
next
  case None
  let ?k = "(json_locale locale, formats)"
  let ?entries = "map (\<lambda>c. (cache_key c, c)) (svc_created s)"
  note new = createIntl_miss [OF None call]
  have key: "cache_key created = ?k"
    by (simp add: new(1) cache_key_def)
  from inv None have fresh: "?k \<notin> set (map cache_key (svc_created s))"
    by (simp add: cache_inv_def map_of_eq_None_iff image_image)
  from inv None have absent: "map_of ?entries ?k = None"
    by (simp add: cache_inv_def)
  have "map_of (?entries @ [(?k, created)]) = (map_of ?entries)(?k \<mapsto> created)"
    by (rule ext) (simp add: map_add_def absent split: option.splits)
  with inv have "svc_intls s' = map_of (map (\<lambda>c. (cache_key c, c)) (svc_created s'))"
    by (simp add: new(2) cache_inv_def key)
  moreover from inv fresh have "distinct (map cache_key (svc_created s'))"
    by (simp add: new(2) cache_inv_def key)
  moreover from inv have "map intl_id (svc_created s') = [0..<length (svc_created s')]"
    by (simp add: new(2) cache_inv_def) (simp add: new(1))
  ultimately show ?thesis
    by (simp add: cache_inv_def)
qed

lemma cache_inv_distinct_ids:
  assumes inv: "cache_inv s"
    and c: "svc_intls s k = Some c" and c': "svc_intls s k' = Some c'" and ne: "k \<noteq> k'"
  shows "intl_id c \<noteq> intl_id c'"
proof
  assume same: "intl_id c = intl_id c'"
  from inv c have mem: "c \<in> set (svc_created s)" and key: "cache_key c = k"
    by (auto simp: cache_inv_def dest!: map_of_SomeD)
  from inv c' have mem': "c' \<in> set (svc_created s)" and key': "cache_key c' = k'"
    by (auto simp: cache_inv_def dest!: map_of_SomeD)
  from key key' ne have diff: "c \<noteq> c'"
    by auto
  from mem obtain i where i: "i < length (svc_created s)" "svc_created s ! i = c"
    by (auto simp: in_set_conv_nth)
  from mem' obtain j where j: "j < length (svc_created s)" "svc_created s ! j = c'"
    by (auto simp: in_set_conv_nth)
  from inv have ids: "map intl_id (svc_created s) = [0..<length (svc_created s)]"
    by (simp add: cache_inv_def)
  have "intl_id c = i"
    using arg_cong [OF ids, of "\<lambda>xs. xs ! i"] i by simp
  moreover have "intl_id c' = j"
    using arg_cong [OF ids, of "\<lambda>xs. xs ! j"] j by simp
  ultimately show False
    using same i j diff by simp
qed

text \<open>
  C4.  In a state where the cache invariant holds, let a call of the memoized
  \<open>createIntl\<close> for a pair of locale and format configuration return a handle.  Then a
  second call for the pair returns the same handle and changes nothing, so nothing is
  constructed; the first call constructed at most this one handle; among all handles
  ever constructed no two are for the same pair; and a call for a pair with another key
  returns a handle with another identity and leaves the entry of the first pair in
  place, so that the first pair still gets its handle afterwards.  \<open>getIntl\<close> is such a
  call, for the first element of its locale and the format configuration of the service.
\<close>

theorem createIntl_memoizes:
  assumes "cache_inv s"
    and "createIntl engine s locale formats = Inr (created, s1)"
  shows "createIntl engine s1 locale formats = Inr (created, s1) \<and>
         cache_inv s1 \<and>
         (svc_created s1 = svc_created s \<or> svc_created s1 = svc_created s @ [created]) \<and>
         distinct (map cache_key (svc_created s1)) \<and>
         (\<forall>locale' formats' created' s2.
            createIntl engine s1 locale' formats' = Inr (created', s2) \<and>
            (json_locale locale', formats') \<noteq> (json_locale locale, formats) \<longrightarrow>
              intl_id created' \<noteq> intl_id created \<and>
              svc_intls s2 (json_locale locale, formats) = Some created \<and>
              createIntl engine s2 locale formats = Inr (created, s2)) \<and>
         (\<forall>l. primary l = locale \<and> svc_formats s = formats \<longrightarrow>
            getIntl engine s l = Inr (created, s1) \<and> getIntl engine s1 l = Inr (created, s1))"
proof -
  note call = assms(2)
  have inv1: "cache_inv s1"
    using assms by (rule cache_inv_createIntl)
  have again: "createIntl engine s1 locale formats = Inr (created, s1)"
    using call by (rule createIntl_again)
  have other: "intl_id created' \<noteq> intl_id created \<and>
               svc_intls s2 (json_locale locale, formats) = Some created \<and>
               createIntl engine s2 locale formats = Inr (created, s2)"
    if call': "createIntl engine s1 locale' formats' = Inr (created', s2)"
      and ne: "(json_locale locale', formats') \<noteq> (json_locale locale, formats)"
    for locale' formats' created' s2
  proof -
    have inv2: "cache_inv s2"
      using inv1 call' by (rule cache_inv_createIntl)
    have kept: "svc_intls s2 (json_locale locale, formats) = Some created"
      using call' createIntl_stored [OF call] by (rule createIntl_keeps)
    have "svc_intls s2 (json_locale locale', formats') = Some created'"
      using call' by (rule createIntl_stored)
    with inv2 have "intl_id created' \<noteq> intl_id created"
      using kept ne by (rule cache_inv_distinct_ids)
    moreover from kept have "createIntl engine s2 locale formats = Inr (created, s2)"
      by (rule createIntl_hit)
    ultimately show ?thesis
      using kept by simp
  qed
  have get: "getIntl engine s l = Inr (created, s1) \<and> getIntl engine s1 l = Inr (created, s1)"
    if "primary l = locale" "svc_formats s = formats" for l
    using that call again createIntl_other_fields [OF call] by (simp add: getIntl_def)
  from inv1 have once: "distinct (map cache_key (svc_created s1))"
    by (simp add: cache_inv_def)
  show ?thesis
  proof (intro conjI allI impI)
    show "createIntl engine s1 locale formats = Inr (created, s1)"
      by (rule again)
    show "cache_inv s1"
      by (rule inv1)
    show "svc_created s1 = svc_created s \<or> svc_created s1 = svc_created s @ [created]"
      using call by (rule createIntl_log)
    show "distinct (map cache_key (svc_created s1))"
      by (rule once)
  qed (use other get in \<open>blast+\<close>)
qed

text \<open>
  On a new service the engine for \<open>en\<close> is constructed by the first call and returned
  again by the second; the engine for \<open>fr\<close> is another object, and \<open>en\<close> keeps its own.
\<close>

theorem createIntl_memoizes_witness:
  "cache_inv (new_service () False) \<and>
   (case createIntl quiet_engine (new_service () False) (LName ''en'') () of
      Inl e \<Rightarrow> False
    | Inr (en, s1) \<Rightarrow>
        createIntl quiet_engine s1 (LName ''en'') () = Inr (en, s1) \<and>
        (case createIntl quiet_engine s1 (LName ''fr'') () of
           Inl e \<Rightarrow> False
         | Inr (fr, s2) \<Rightarrow>
             intl_id fr \<noteq> intl_id en \<and>
             createIntl quiet_engine s2 (LName ''en'') () = Inr (en, s2)))"
proof -
  have inv: "cache_inv (new_service () False)"
    by (rule cache_inv_new_service)
  obtain en s1 where
    first: "createIntl quiet_engine (new_service () False) (LName ''en'') () = Inr (en, s1)"
    by (cases "createIntl quiet_engine (new_service () False) (LName ''en'') ()")
       (auto simp: createIntl_def quiet_engine_def Let_def split: option.splits)
  obtain fr s2 where
    second: "createIntl quiet_engine s1 (LName ''fr'') () = Inr (fr, s2)"
    by (cases "createIntl quiet_engine s1 (LName ''fr'') ()")
       (auto simp: createIntl_def quiet_engine_def Let_def split: option.splits)
  note memo = createIntl_memoizes [OF inv first]
  from memo have again: "createIntl quiet_engine s1 (LName ''en'') () = Inr (en, s1)"
    by blast
  have "(json_locale (LName ''fr''), ()) \<noteq> (json_locale (LName ''en''), ())"
    by simp
  with memo second
  have "intl_id fr \<noteq> intl_id en \<and> createIntl quiet_engine s2 (LName ''en'') () = Inr (en, s2)"
    by blast
  with inv first second again show ?thesis
    by simp
qed

subsection \<open>Translations added after an engine was constructed\<close>

lemma addTranslations_fields:
  "svc_intls (addTranslations s localeName payload) = svc_intls s \<and>
   svc_created (addTranslations s localeName payload) = svc_created s \<and>
   svc_formats (addTranslations s localeName payload) = svc_formats s \<and>
   svc_locale (addTranslations s localeName payload) = svc_locale s"
  by (simp add: addTranslations_def)

lemma format_locale_addTranslations:
  "format_locale (addTranslations s localeName payload) formatOptions =
   format_locale s formatOptions"
proof -
  have "get_locale (addTranslations s localeName payload) = get_locale s"
    by (simp add: get_locale_def addTranslations_fields)
  moreover have "localeWithDefault (addTranslations s localeName payload) a = localeWithDefault s a"
    for a
    by (simp add: localeWithDefault_def addTranslations_fields)
  ultimately show ?thesis
    by (simp add: format_locale_def split: option.splits)
qed

lemma formatter_format_cached:
  assumes "svc_intls s (json_locale (primary l), svc_formats s) = Some cached"
  shows "formatter_format engine name s l v formatOptions =
           ((case report_all (format_reports engine name cached v formatOptions) of
               Inl e \<Rightarrow> Inl e
             | Inr u \<Rightarrow> Inr (format_output engine name cached v formatOptions)), s)"
  using assms
  by (simp add: formatter_format_def getIntl_def createIntl_hit split: sum.splits)

lemma serviceFormatterProxy_cached:
  assumes "svc_intls s (json_locale (primary (format_locale s formatOptions)), svc_formats s) =
             Some cached"
  shows "fst (serviceFormatterProxy engine name s v formatOptions) =
           (case report_all (format_reports engine name cached v formatOptions) of
              Inl e \<Rightarrow> Inl e
            | Inr u \<Rightarrow> Inr (format_output engine name cached v formatOptions))"
  by (simp add: serviceFormatterProxy_def formatter_format_cached [OF assms])

text \<open>
  C10.  Let a call of the memoized \<open>createIntl\<close> construct the engine for a locale.  The
  messages in its configuration are the map that the store held for the locale at that
  moment.  A later \<open>addTranslations\<close>, for whatever locale, stores the flattened payload
  in the store and leaves the cache as it is: the same call returns the same handle, with
  the same messages.  A formatting entry point whose primary locale is this locale then
  formats with that handle, and its result is the one it had without the added
  translations.
\<close>

theorem engine_keeps_messages_of_construction:
  assumes "svc_intls s (json_locale locale, formats) = None"
    and "createIntl engine s locale formats = Inr (created, s1)"
  shows "cfg_messages (intl_config created) = messagesMap_get s (property_key locale) \<and>
         (\<forall>localeName payload.
            svc_messagesMap (addTranslations s1 localeName payload) (normalizeLocale localeName) =
              Some (flatten payload) \<and>
            svc_intls (addTranslations s1 localeName payload) = svc_intls s1 \<and>
            createIntl engine (addTranslations s1 localeName payload) locale formats =
              Inr (created, addTranslations s1 localeName payload)) \<and>
         (\<forall>localeName payload name v formatOptions.
            primary (format_locale s1 formatOptions) = locale \<and> svc_formats s1 = formats \<longrightarrow>
              fst (serviceFormatterProxy engine name (addTranslations s1 localeName payload)
                     v formatOptions) =
                (case report_all (format_reports engine name created v formatOptions) of
                   Inl e \<Rightarrow> Inl e
                 | Inr u \<Rightarrow> Inr (format_output engine name created v formatOptions)) \<and>
              fst (serviceFormatterProxy engine name (addTranslations s1 localeName payload)
                     v formatOptions) =
                fst (serviceFormatterProxy engine name s1 v formatOptions))"
proof -
  note call = assms(2)
  have snapshot: "cfg_messages (intl_config created) = messagesMap_get s (property_key locale)"
    using createIntl_miss(1) [OF assms] by simp
  have stored: "svc_intls s1 (json_locale locale, formats) = Some created"
    using call by (rule createIntl_stored)
  have store: "svc_messagesMap (addTranslations s1 localeName payload) (normalizeLocale localeName) =
                 Some (flatten payload)" for localeName payload
    by (simp add: addTranslations_def)
  have again: "createIntl engine (addTranslations s1 localeName payload) locale formats =
                 Inr (created, addTranslations s1 localeName payload)" for localeName payload
    by (rule createIntl_hit) (simp add: addTranslations_fields stored)
  have after:
    "fst (serviceFormatterProxy engine name (addTranslations s1 localeName payload) v formatOptions) =
       (case report_all (format_reports engine name created v formatOptions) of
          Inl e \<Rightarrow> Inl e
        | Inr u \<Rightarrow> Inr (format_output engine name created v formatOptions))"
    if "primary (format_locale s1 formatOptions) = locale" "svc_formats s1 = formats"
    for localeName payload name v formatOptions
    using that stored
    by (intro serviceFormatterProxy_cached)
       (simp add: format_locale_addTranslations addTranslations_fields)
  have before:
    "fst (serviceFormatterProxy engine name s1 v formatOptions) =
       (case report_all (format_reports engine name created v formatOptions) of
          Inl e \<Rightarrow> Inl e
        | Inr u \<Rightarrow> Inr (format_output engine name created v formatOptions))"
    if "primary (format_locale s1 formatOptions) = locale" "svc_formats s1 = formats"
    for name v formatOptions
    using that stored by (intro serviceFormatterProxy_cached) simp
  show ?thesis
    by (intro conjI allI impI)
       (simp_all add: snapshot store again addTranslations_fields after before)
qed

text \<open>
  In the example store the engine for \<open>fr\<close> is built while \<open>farewell\<close> is
  \<open>Au revoir\<close>.  After \<open>farewell\<close> has been replaced by \<open>Adieu\<close>, \<open>lookup\<close> finds the new
  translation and \<open>formatMessage\<close> still gives the old one.
\<close>

theorem engine_keeps_messages_of_construction_witness:
  "(case svc_intls two_locales (json_locale (LName ''fr''), ()) of
      None \<Rightarrow> True | Some cached \<Rightarrow> False) \<and>
   (case createIntl message_engine two_locales (LName ''fr'') () of
      Inl e \<Rightarrow> False
    | Inr (created, s1) \<Rightarrow>
        fst (serviceFormatterProxy message_engine FormatMessage s1 ''farewell''
               (Some \<lparr>opt_locale = Str ''fr'', opt_more = ()\<rparr>)) = Inr ''Au revoir'' \<and>
        (\<forall>rt. lookup rt (addTranslations s1 ''fr'' [(''farewell'', Leaf ''Adieu'')])
                ''farewell'' (Str ''fr'') = Inr (Some (JString ''Adieu''))) \<and>
        fst (serviceFormatterProxy message_engine FormatMessage
               (addTranslations s1 ''fr'' [(''farewell'', Leaf ''Adieu'')]) ''farewell''
               (Some \<lparr>opt_locale = Str ''fr'', opt_more = ()\<rparr>)) = Inr ''Au revoir'')"
proof -
  let ?fo = "Some \<lparr>opt_locale = Str ''fr'', opt_more = ()\<rparr>"
  let ?adieu = "[(''farewell'', Leaf ''Adieu'')]"
  have miss: "svc_intls two_locales (json_locale (LName ''fr''), ()) = None"
    by (simp add: two_locales_def addTranslations_def new_service_def)
  obtain created s1 where
    call: "createIntl message_engine two_locales (LName ''fr'') () = Inr (created, s1)"
    by (cases "createIntl message_engine two_locales (LName ''fr'') ()")
       (auto simp: createIntl_def message_engine_def Let_def split: option.splits)
  have "case createIntl message_engine two_locales (LName ''fr'') () of
          Inl e \<Rightarrow> False
        | Inr (c, s) \<Rightarrow>
            fst (serviceFormatterProxy message_engine FormatMessage s ''farewell'' ?fo) =
              Inr ''Au revoir'' \<and>
            primary (format_locale s ?fo) = LName ''fr''"
    by code_simp
  with call have
    before: "fst (serviceFormatterProxy message_engine FormatMessage s1 ''farewell'' ?fo) =
               Inr ''Au revoir''" and
    prim: "primary (format_locale s1 ?fo) = LName ''fr''"
    by simp_all
  have fr: "normalizeLocale ''fr'' = ''fr''"
    by code_simp
  have adieu: "flatten ?adieu ''farewell'' = Some ''Adieu''"
    by code_simp
  have found: "lookup rt (addTranslations s1 ''fr'' ?adieu) ''farewell'' (Str ''fr'') =
                 Inr (Some (JString ''Adieu''))" for rt
    by (simp add: lookup_def localeWithDefault_def fr messages_of_def messagesMap_get_def
          addTranslations_def adieu)
  note keeps = engine_keeps_messages_of_construction
    [OF miss call, THEN conjunct2, THEN conjunct2, rule_format]
  from prim have "primary (format_locale s1 ?fo) = LName ''fr'' \<and> svc_formats s1 = ()"
    by simp
  from keeps [OF this]
  have "fst (serviceFormatterProxy message_engine FormatMessage
               (addTranslations s1 ''fr'' ?adieu) ''farewell'' ?fo) =
        fst (serviceFormatterProxy message_engine FormatMessage s1 ''farewell'' ?fo)"
    by (rule conjunct2)
  with before found call miss show ?thesis
    by simp
qed

subsection \<open>The setter of the active locales\<close>

lemma isArrayEqual_iff: "isArrayEqual proposed current \<longleftrightarrow> current = Some proposed"
  by (auto simp: isArrayEqual_def list_all2_eq [symmetric] split: option.splits)

lemma set_locale_same:
  "normalize_each (makeArray localeName) = Inr proposed \<Longrightarrow> svc_locale s = Some proposed \<Longrightarrow>
   set_locale s localeName = Inr s"
  by (simp add: set_locale_def isArrayEqual_iff)

lemma set_locale_changed:
  "normalize_each (makeArray localeName) = Inr proposed \<Longrightarrow> svc_locale s \<noteq> Some proposed \<Longrightarrow>
   set_locale s localeName =
     Inr (s\<lparr>svc_locale := Some proposed,
            scheduled := scheduled (runloop_cancel (svc_timer s) s) @ [next_timer s],
            next_timer := Suc (next_timer s),
            svc_timer := Some (next_timer s)\<rparr>)"
  by (simp add: set_locale_def isArrayEqual_iff runloop_next_def runloop_cancel_def
        split: option.splits)

lemma set_locale_cases:
  assumes "set_locale s localeName = Inr s'"
  obtains (same) proposed where
      "normalize_each (makeArray localeName) = Inr proposed"
      "svc_locale s = Some proposed" "s' = s"
  | (changed) proposed where
      "normalize_each (makeArray localeName) = Inr proposed"
      "svc_locale s \<noteq> Some proposed"
      "s' = s\<lparr>svc_locale := Some proposed,
               scheduled := scheduled (runloop_cancel (svc_timer s) s) @ [next_timer s],
               next_timer := Suc (next_timer s),
               svc_timer := Some (next_timer s)\<rparr>"
proof (cases "normalize_each (makeArray localeName)")
  case (Inl e)
  with assms show ?thesis
    by (simp add: set_locale_def)
next
  case (Inr proposed)
  show ?thesis
  proof (cases "svc_locale s = Some proposed")
    case True
    have "set_locale s localeName = Inr s"
      using Inr True by (rule set_locale_same)
    with assms have "s' = s"
      by simp
    with Inr True show ?thesis
      by (rule same)
  next
    case False
    have "set_locale s localeName =
            Inr (s\<lparr>svc_locale := Some proposed,
                   scheduled := scheduled (runloop_cancel (svc_timer s) s) @ [next_timer s],
                   next_timer := Suc (next_timer s),
                   svc_timer := Some (next_timer s)\<rparr>)"
      using Inr False by (rule set_locale_changed)
    with assms have
      "s' = s\<lparr>svc_locale := Some proposed,
                scheduled := scheduled (runloop_cancel (svc_timer s) s) @ [next_timer s],
                next_timer := Suc (next_timer s),
                svc_timer := Some (next_timer s)\<rparr>"
      by simp
    with Inr False show ?thesis
      by (rule changed)
  qed
qed

lemma pending_inv_iff:
  "pending_inv s \<longleftrightarrow>
     scheduled s = [] \<or>
     (\<exists>t. scheduled s = [t] \<and> svc_timer s = Some t \<and> svc_locale s \<noteq> None \<and>
          t < next_timer s)"
  by (auto simp: pending_inv_def split: list.splits)

lemma cancel_pending:
  "pending_inv s \<Longrightarrow> scheduled (runloop_cancel (svc_timer s) s) = []"
  by (auto simp: pending_inv_iff runloop_cancel_def split: option.splits)

lemma pending_inv_new_service: "pending_inv (new_service fmts with_dom)"
  by (simp add: pending_inv_iff new_service_def)

lemma pending_inv_set_locale:
  assumes "pending_inv s" and "set_locale s localeName = Inr s'"
  shows "pending_inv s'"
  using assms(2)
proof (cases rule: set_locale_cases)
  case (same proposed)
  with assms(1) show ?thesis by simp
next
  case (changed proposed)
  with cancel_pending [OF assms(1)] show ?thesis
    by (simp add: pending_inv_iff)
qed

lemma run_next_turn_idle: "scheduled s = [] \<Longrightarrow> run_next_turn s = Inr s"
  by (simp add: run_next_turn_def)

lemma run_next_turn_single:
  assumes "scheduled s = [t]" and "svc_locale s = Some active"
  shows "run_next_turn s =
           Inr (s\<lparr>scheduled := [],
                  notifications := notifications s @ [Some active],
                  html_lang :=
                    (if has_dom s
                     then Some (case active of [] \<Rightarrow> ''undefined'' | primaryLocale # rest \<Rightarrow> primaryLocale)
                     else html_lang s)\<rparr>)"
proof (cases active)
  case Nil
  with assms show ?thesis
    by (simp add: run_next_turn_def locale_callback_def updateDocumentLanguage_def)
next
  case (Cons primaryLocale rest)
  with assms show ?thesis
    by (simp add: run_next_turn_def locale_callback_def updateDocumentLanguage_def)
qed

lemma run_next_turn_fires:
  assumes "scheduled s = [t]" and "svc_locale s = Some active"
  shows "\<exists>s'. run_next_turn s = Inr s' \<and>
              notifications s' = notifications s @ [Some active] \<and>
              scheduled s' = [] \<and> svc_locale s' = svc_locale s \<and> svc_timer s' = svc_timer s \<and>
              next_timer s' = next_timer s \<and>
              svc_intls s' = svc_intls s \<and> svc_created s' = svc_created s"
  by (simp add: run_next_turn_single [OF assms])

lemma pending_inv_run_next_turn:
  assumes "pending_inv s" and "run_next_turn s = Inr s'"
  shows "pending_inv s'"
proof (cases "scheduled s")
  case Nil
  with assms show ?thesis
    by (simp add: run_next_turn_idle)
next
  case (Cons t ts)
  with assms(1) obtain active where "scheduled s = [t]" "svc_locale s = Some active"
    by (auto simp: pending_inv_iff)
  from run_next_turn_fires [OF this] assms(2) show ?thesis
    by (auto simp: pending_inv_iff)
qed

lemma pending_inv_addTranslations:
  "pending_inv s \<Longrightarrow> pending_inv (addTranslations s localeName payload)"
  by (simp add: pending_inv_iff addTranslations_def)

lemma pending_inv_createIntl:
  "pending_inv s \<Longrightarrow> createIntl engine s locale formats = Inr (created, s') \<Longrightarrow> pending_inv s'"
  using createIntl_other_fields [of engine s "locale" formats created "s'"]
  by (simp add: pending_inv_iff)

lemma pending_inv_willDestroy: "pending_inv s \<Longrightarrow> pending_inv (willDestroy s)"
  using cancel_pending [of s] by (simp add: willDestroy_def pending_inv_iff)

lemma cache_inv_fields:
  assumes "svc_intls s' = svc_intls s" and "svc_created s' = svc_created s"
  shows "cache_inv s' = cache_inv s"
  unfolding cache_inv_def assms ..

lemma cache_inv_set_locale:
  assumes "cache_inv s" and "set_locale s localeName = Inr s'"
  shows "cache_inv s'"
  using assms(2)
proof (cases rule: set_locale_cases)
  case (same proposed)
  with assms(1) show ?thesis by simp
next
  case (changed proposed)
  with assms(1) show ?thesis
    by (simp add: cache_inv_def)
qed

lemma cache_inv_run_next_turn:
  assumes "pending_inv s" and "cache_inv s" and "run_next_turn s = Inr s'"
  shows "cache_inv s'"
proof (cases "scheduled s")
  case Nil
  with assms show ?thesis
    by (simp add: run_next_turn_idle)
next
  case (Cons t ts)
  with assms(1) obtain active where "scheduled s = [t]" "svc_locale s = Some active"
    by (auto simp: pending_inv_iff)
  from run_next_turn_fires [OF this] assms(3)
  have "svc_intls s' = svc_intls s" "svc_created s' = svc_created s"
    by auto
  then have "cache_inv s' = cache_inv s"
    by (rule cache_inv_fields)
  with assms(2) show ?thesis
    by simp
qed

lemma cache_inv_addTranslations:
  "cache_inv (addTranslations s localeName payload) = cache_inv s"
  by (simp add: cache_inv_def addTranslations_def)

lemma cache_inv_willDestroy: "cache_inv (willDestroy s) = cache_inv s"
  by (simp add: cache_inv_def willDestroy_def runloop_cancel_def split: option.splits)

text \<open>Both invariants hold in every state that a service can be in.\<close>

lemma reachable_invariants: "reachable engine s \<Longrightarrow> pending_inv s \<and> cache_inv s"
proof (induction rule: reachable.induct)
  case (reach_new fmts with_dom)
  show ?case
    by (simp add: pending_inv_new_service cache_inv_new_service)
next
  case (reach_set s localeName s')
  then show ?case
    by (auto intro: pending_inv_set_locale cache_inv_set_locale)
next
  case (reach_turn s s')
  then show ?case
    by (auto intro: pending_inv_run_next_turn cache_inv_run_next_turn)
next
  case (reach_add s localeName payload)
  then show ?case
    by (simp add: pending_inv_addTranslations cache_inv_addTranslations)
next
  case (reach_intl s l cached s')
  then show ?case
    unfolding getIntl_def by (auto intro: pending_inv_createIntl cache_inv_createIntl)
next
  case (reach_destroy s)
  then show ?case
    by (simp add: pending_inv_willDestroy cache_inv_willDestroy)
qed

lemma set_locale_notifications:
  "set_locale s localeName = Inr s' \<Longrightarrow> notifications s' = notifications s"
  by (erule set_locale_cases) simp_all

lemma set_locale_unchanged:
  "set_locale s localeName = Inr s' \<Longrightarrow> svc_locale s' = svc_locale s \<Longrightarrow> s' = s"
  by (erule set_locale_cases) simp_all

lemma set_locale_reschedules:
  assumes "pending_inv s" and "set_locale s localeName = Inr s'"
    and "svc_locale s' \<noteq> svc_locale s"
  shows "\<exists>proposed. svc_locale s' = Some proposed \<and> scheduled s' = [next_timer s] \<and>
           svc_timer s' = Some (next_timer s)"
  using assms(2)
proof (cases rule: set_locale_cases)
  case (same proposed)
  with assms(3) show ?thesis by simp
next
  case (changed proposed)
  with cancel_pending [OF assms(1)] show ?thesis by simp
qed

text \<open>
  C2.  Let the active locales be \<open>active\<close> and let the argument of the setter normalize
  to a sequence that is element-wise equal to \<open>active\<close>.  Then the setter returns the
  state it was given: the active locales, the timer handle, the timers of the run loop
  and the notifications so far are what they were, and the next turn of the run loop
  does what it would have done without the call.  The same holds for \<open>setLocale\<close>.
\<close>

theorem set_locale_equal_is_noop:
  assumes "svc_locale s = Some active"
    and "normalize_each (makeArray localeName) = Inr proposed"
    and "list_all2 (=) proposed active"
  shows "set_locale s localeName = Inr s \<and>
         (truthy localeName \<longrightarrow> setLocale s localeName = Inr s) \<and>
         (\<forall>s'. set_locale s localeName = Inr s' \<longrightarrow>
            svc_locale s' = Some active \<and> svc_timer s' = svc_timer s \<and>
            scheduled s' = scheduled s \<and> next_timer s' = next_timer s \<and>
            notifications s' = notifications s \<and> run_next_turn s' = run_next_turn s)"
proof -
  from assms(3) have "proposed = active"
    by (simp add: list_all2_eq)
  with assms(1,2) have "set_locale s localeName = Inr s"
    by (simp add: set_locale_same)
  with assms(1) show ?thesis
    by (simp add: setLocale_def)
qed

text \<open>
  After \<open>setLocale(['en', 'fr'])\<close> a notification is waiting.  Setting \<open>['EN', 'FR']\<close>
  changes nothing, and the turn of the run loop fires the one notification.
\<close>

theorem set_locale_equal_is_noop_witness:
  "svc_locale en_fr = Some [''en'', ''fr''] \<and>
   normalize_each (makeArray (Arr [''EN'', ''FR''])) = Inr [''en'', ''fr''] \<and>
   list_all2 (=) [''en'', ''fr''] [''en'', ''fr''] \<and>
   set_locale en_fr (Arr [''EN'', ''FR'']) = Inr en_fr \<and>
   setLocale en_fr (Arr [''EN'', ''FR'']) = Inr en_fr \<and>
   scheduled en_fr = [0] \<and> notifications en_fr = []"
proof -
  have active: "svc_locale en_fr = Some [''en'', ''fr'']"
    by code_simp
  have proposed: "normalize_each (makeArray (Arr [''EN'', ''FR''])) = Inr [''en'', ''fr'']"
    by code_simp
  have equal: "list_all2 (=) [''en'', ''fr''] [''en'', ''fr'']"
    by simp
  have waiting: "scheduled en_fr = [0] \<and> notifications en_fr = []"
    by code_simp
  from set_locale_equal_is_noop [OF active proposed equal] active proposed equal waiting
  show ?thesis
    by simp
qed

text \<open>
  C3.  In every state that a service can be in, at most one timer of the service is
  waiting in the run loop.  A call of the setter with a value that differs from the
  active locales stores the value, removes the waiting timer if there is one and
  schedules a new one, which is then the only one; no notification fires during the
  call.  After two calls of \<open>setLocale\<close> of which at least one changed the active
  locales, the next turn of the run loop fires exactly one notification, and it carries
  the active locales as the second call left them.
\<close>

theorem setLocale_coalesces_notifications:
  assumes "reachable engine s"
  shows "length (scheduled s) \<le> 1 \<and>
         (\<forall>localeName s'. set_locale s localeName = Inr s' \<longrightarrow>
            reachable engine s' \<and> length (scheduled s') \<le> 1) \<and>
         (\<forall>localeName proposed s'.
            set_locale s localeName = Inr s' \<and>
            normalize_each (makeArray localeName) = Inr proposed \<and>
            \<not> isArrayEqual proposed (svc_locale s) \<longrightarrow>
              svc_locale s' = Some proposed \<and>
              scheduled s' = [next_timer s] \<and> next_timer s \<notin> set (scheduled s) \<and>
              svc_timer s' = Some (next_timer s) \<and>
              notifications s' = notifications s) \<and>
         (\<forall>a b s1 s2.
            setLocale s a = Inr s1 \<and> setLocale s1 b = Inr s2 \<and>
            (svc_locale s1 \<noteq> svc_locale s \<or> svc_locale s2 \<noteq> svc_locale s1) \<longrightarrow>
              (\<exists>s3. run_next_turn s2 = Inr s3 \<and>
                    notifications s3 = notifications s @ [svc_locale s2] \<and>
                    scheduled s3 = []))"
proof -
  have inv: "pending_inv s"
    using assms by (simp add: reachable_invariants)
  have short: "length (scheduled u) \<le> 1" if "pending_inv u" for u :: "'a service"
    using that by (auto simp: pending_inv_iff)
  have stays: "reachable engine s' \<and> length (scheduled s') \<le> 1"
    if "set_locale s localeName = Inr s'" for localeName s'
  proof -
    from assms that have reach: "reachable engine s'"
      by (rule reachable.reach_set)
    then have "pending_inv s'"
      by (simp add: reachable_invariants)
    then have "length (scheduled s') \<le> 1"
      by (rule short)
    with reach show ?thesis
      by simp
  qed
  have change: "svc_locale s' = Some proposed \<and>
      scheduled s' = [next_timer s] \<and> next_timer s \<notin> set (scheduled s) \<and>
      svc_timer s' = Some (next_timer s) \<and>
      notifications s' = notifications s"
    if "set_locale s localeName = Inr s'"
      "normalize_each (makeArray localeName) = Inr proposed"
      "\<not> isArrayEqual proposed (svc_locale s)"
    for localeName proposed s'
  proof -
    from that(3) have "svc_locale s \<noteq> Some proposed"
      by (simp add: isArrayEqual_iff)
    from set_locale_changed [OF that(2) this] that(1) cancel_pending [OF inv]
    have "svc_locale s' = Some proposed \<and> scheduled s' = [next_timer s] \<and>
          svc_timer s' = Some (next_timer s) \<and> notifications s' = notifications s"
      by auto
    moreover from inv have "next_timer s \<notin> set (scheduled s)"
      by (auto simp: pending_inv_iff)
    ultimately show ?thesis
      by simp
  qed
  have twice: "\<exists>s3. run_next_turn s2 = Inr s3 \<and>
                 notifications s3 = notifications s @ [svc_locale s2] \<and> scheduled s3 = []"
    if first: "setLocale s a = Inr s1" and second: "setLocale s1 b = Inr s2"
      and differs: "svc_locale s1 \<noteq> svc_locale s \<or> svc_locale s2 \<noteq> svc_locale s1"
    for a b s1 s2
  proof -
    from first have set1: "set_locale s a = Inr s1"
      by (simp add: setLocale_def split: if_splits)
    from second have set2: "set_locale s1 b = Inr s2"
      by (simp add: setLocale_def split: if_splits)
    have inv1: "pending_inv s1"
      using inv set1 by (rule pending_inv_set_locale)
    have silent: "notifications s2 = notifications s"
      using set1 set2 by (simp add: set_locale_notifications)
    have "\<exists>t active. scheduled s2 = [t] \<and> svc_locale s2 = Some active"
    proof (cases "svc_locale s2 = svc_locale s1")
      case True
      with set2 have "s2 = s1"
        by (rule set_locale_unchanged)
      moreover from True differs have "svc_locale s1 \<noteq> svc_locale s"
        by simp
      with inv set1 have "\<exists>proposed. svc_locale s1 = Some proposed \<and>
          scheduled s1 = [next_timer s] \<and> svc_timer s1 = Some (next_timer s)"
        by (rule set_locale_reschedules)
      ultimately show ?thesis
        by auto
    next
      case False
      with inv1 set2 have "\<exists>proposed. svc_locale s2 = Some proposed \<and>
          scheduled s2 = [next_timer s1] \<and> svc_timer s2 = Some (next_timer s1)"
        by (rule set_locale_reschedules)
      then show ?thesis
        by auto
    qed
    then obtain t active where "scheduled s2 = [t]" "svc_locale s2 = Some active"
      by blast
    from run_next_turn_fires [OF this] this(2) silent show ?thesis
      by auto
  qed
  from inv have "length (scheduled s) \<le> 1"
    by (rule short)
  with stays change twice show ?thesis
    by (intro conjI allI impI) blast+
qed

text \<open>
  On a new service with a document, \<open>setLocale(['en', 'fr'])\<close> twice leaves one timer
  waiting; the turn of the run loop fires one notification with \<open>en\<close>, \<open>fr\<close> and writes
  \<open>en\<close> to the document.  After \<open>setLocale('en')\<close> and then \<open>setLocale('fr')\<close> the one
  notification carries \<open>fr\<close>.
\<close>

theorem setLocale_coalesces_notifications_witness:
  "reachable quiet_engine (new_service () True) \<and>
   setLocale (new_service () True) (Arr [''en'', ''fr'']) = Inr en_fr \<and>
   setLocale en_fr (Arr [''en'', ''fr'']) = Inr en_fr \<and>
   svc_locale en_fr \<noteq> svc_locale (new_service () True) \<and>
   (case run_next_turn en_fr of
      Inl e \<Rightarrow> False
    | Inr s3 \<Rightarrow>
        notifications s3 = [Some [''en'', ''fr'']] \<and> scheduled s3 = [] \<and>
        html_lang s3 = Some ''en'') \<and>
   (case setLocale (new_service () True) (Str ''en'') of
      Inl e \<Rightarrow> False
    | Inr s1 \<Rightarrow>
        (case setLocale s1 (Str ''fr'') of
           Inl e \<Rightarrow> False
         | Inr s2 \<Rightarrow>
             scheduled s2 = [1] \<and>
             (case run_next_turn s2 of
                Inl e \<Rightarrow> False
              | Inr s3 \<Rightarrow> notifications s3 = [Some [''fr'']] \<and> scheduled s3 = [])))"
proof -
  let ?new = "new_service () True"
  have start: "reachable quiet_engine ?new"
    by (rule reachable.reach_new)
  note coalesce = setLocale_coalesces_notifications [OF start]
  have "normalize_each (makeArray (Arr [''en'', ''fr''])) = Inr [''en'', ''fr'']"
    by code_simp
  moreover have "svc_locale ?new \<noteq> Some [''en'', ''fr'']"
    by (simp add: new_service_def)
  ultimately obtain s1 where "set_locale ?new (Arr [''en'', ''fr'']) = Inr s1"
    using set_locale_changed by blast
  then have first: "setLocale ?new (Arr [''en'', ''fr'']) = Inr en_fr"
    by (simp add: en_fr_def setLocale_def)
  have active: "svc_locale en_fr = Some [''en'', ''fr'']"
    by code_simp
  have "normalize_each (makeArray (Arr [''en'', ''fr''])) = Inr [''en'', ''fr'']"
    by code_simp
  from set_locale_same [OF this active]
  have second: "setLocale en_fr (Arr [''en'', ''fr'']) = Inr en_fr"
    by (simp add: setLocale_def)
  from active have differs: "svc_locale en_fr \<noteq> svc_locale ?new"
    by (simp add: new_service_def)
  from coalesce first second differs
  obtain s3 where fired: "run_next_turn en_fr = Inr s3"
    "notifications s3 = notifications ?new @ [svc_locale en_fr]" "scheduled s3 = []"
    by blast
  have "case run_next_turn en_fr of Inl e \<Rightarrow> False | Inr s3 \<Rightarrow> html_lang s3 = Some ''en''"
    by code_simp
  with fired active have same_twice:
    "case run_next_turn en_fr of
       Inl e \<Rightarrow> False
     | Inr s3 \<Rightarrow>
         notifications s3 = [Some [''en'', ''fr'']] \<and> scheduled s3 = [] \<and>
         html_lang s3 = Some ''en''"
    by (simp add: new_service_def)
  have other:
    "case setLocale ?new (Str ''en'') of
       Inl e \<Rightarrow> False
     | Inr s1 \<Rightarrow>
         (case setLocale s1 (Str ''fr'') of
            Inl e \<Rightarrow> False
          | Inr s2 \<Rightarrow>
              scheduled s2 = [1] \<and>
              (case run_next_turn s2 of
                 Inl e \<Rightarrow> False
               | Inr s3 \<Rightarrow> notifications s3 = [Some [''fr'']] \<and> scheduled s3 = []))"
    by code_simp
  from start first second differs same_twice other show ?thesis
    by simp
qed

subsection \<open>The primary locale of a formatting call\<close>

lemma report_all_error:
  "report_all errs = Inl e \<Longrightarrow>
   \<exists>err. e = IntlError err \<and> err_code err \<noteq> Some MISSING_TRANSLATION"
  by (induction errs) (auto simp: onIntlError_def split: if_splits)

lemma createIntl_error:
  "createIntl engine s locale formats = Inl e \<Longrightarrow>
   \<exists>err. e = IntlError err \<and> err_code err \<noteq> Some MISSING_TRANSLATION"
  by (auto simp: createIntl_def Let_def split: option.splits sum.splits dest: report_all_error)

lemma createIntl_quiet:
  "construct_reports engine = (\<lambda>config. []) \<Longrightarrow>
   \<exists>created s'. createIntl engine s locale formats = Inr (created, s')"
  by (simp add: createIntl_def Let_def split: option.splits)

lemma built_inv_new_service: "built_inv engine (new_service fmts with_dom)"
  by (simp add: built_inv_def new_service_def)

lemma built_inv_fields:
  assumes "svc_created s' = svc_created s"
  shows "built_inv engine s' = built_inv engine s"
  unfolding built_inv_def assms ..

lemma built_inv_createIntl:
  assumes inv: "built_inv engine s"
    and call: "createIntl engine s locale formats = Inr (created, s')"
  shows "built_inv engine s'"
proof (cases "svc_intls s (json_locale locale, formats)")
  case (Some cached)
  with call have "s' = s" by (simp add: createIntl_def)
  with inv show ?thesis by simp
next
  case None
  note new = createIntl_miss [OF None call]
  from None call
  have "report_all (construct_reports engine
          \<lparr> cfg_locale = locale, cfg_defaultLocale = locale,
            cfg_formats = formats, cfg_defaultFormats = formats,
            cfg_messages = messagesMap_get s (property_key locale) \<rparr>) = Inr ()"
    by (auto simp: createIntl_def Let_def split: sum.splits)
  then have "report_all (construct_reports engine (intl_config created)) = Inr ()"
    by (simp add: new(1))
  with inv show ?thesis
    by (simp add: built_inv_def new(2))
qed

text \<open>In every state that a service can be in, the handles are those that the engine
  let it construct.\<close>

lemma reachable_built: "reachable engine s \<Longrightarrow> built_inv engine s"
proof (induction rule: reachable.induct)
  case (reach_new fmts with_dom)
  show ?case
    by (rule built_inv_new_service)
next
  case (reach_set s localeName s')
  from reach_set(2) have "svc_created s' = svc_created s"
    by (cases rule: set_locale_cases) simp_all
  from built_inv_fields [OF this, of engine] reach_set(3) show ?case
    by simp
next
  case (reach_turn s s')
  from reach_turn(1) have pending: "pending_inv s"
    by (simp add: reachable_invariants)
  have "svc_created s' = svc_created s"
  proof (cases "scheduled s")
    case Nil
    with reach_turn(2) show ?thesis
      by (simp add: run_next_turn_idle)
  next
    case (Cons t ts)
    with pending obtain active where "scheduled s = [t]" "svc_locale s = Some active"
      by (auto simp: pending_inv_iff)
    from run_next_turn_fires [OF this] reach_turn(2) show ?thesis
      by auto
  qed
  from built_inv_fields [OF this, of engine] reach_turn(3) show ?case
    by simp
next
  case (reach_add s localeName payload)
  then show ?case
    by (simp add: built_inv_def addTranslations_def)
next
  case (reach_intl s l cached s')
  then show ?case
    unfolding getIntl_def by (auto intro: built_inv_createIntl)
next
  case (reach_destroy s)
  then show ?case
    by (simp add: built_inv_def willDestroy_def runloop_cancel_def split: option.splits)
qed

text \<open>With an engine that reports a missing locale, no handle is ever cached under the
  key of no locale, and a construction for no locale throws the engine's report.\<close>

lemma no_handle_without_locale:
  assumes reach: "reachable engine s" and strict: "reports_missing_locale engine"
  shows "svc_intls s (LNull, formats) = None"
proof (rule ccontr)
  assume "svc_intls s (LNull, formats) \<noteq> None"
  then obtain cached where cached: "svc_intls s (LNull, formats) = Some cached"
    by auto
  from reach have "cache_inv s"
    by (simp add: reachable_invariants)
  with cached have mem: "cached \<in> set (svc_created s)" and key: "cache_key cached = (LNull, formats)"
    by (auto simp: cache_inv_def dest!: map_of_SomeD)
  from key have "json_locale (cfg_locale (intl_config cached)) = LNull"
    by (simp add: cache_key_def)
  then have "cfg_locale (intl_config cached) = LUndefined \<or>
             cfg_locale (intl_config cached) = LNull"
    by (cases "cfg_locale (intl_config cached)") simp_all
  with strict [unfolded reports_missing_locale_def, rule_format, of "intl_config cached"]
  obtain err where
    "find (\<lambda>e. err_code e \<noteq> Some MISSING_TRANSLATION)
       (construct_reports engine (intl_config cached)) = Some err"
    by blast
  then have "report_all (construct_reports engine (intl_config cached)) = Inl (IntlError err)"
    by (simp add: report_all_find)
  moreover from reachable_built [OF reach] mem
  have "report_all (construct_reports engine (intl_config cached)) = Inr ()"
    by (simp add: built_inv_def list_all_iff)
  ultimately show False
    by simp
qed

lemma createIntl_without_locale:
  assumes "reachable engine s" and "reports_missing_locale engine"
  shows "\<exists>err. createIntl engine s LUndefined formats = Inl (IntlError err) \<and>
               err_code err = Some INVALID_CONFIG"
proof -
  let ?config = "\<lparr> cfg_locale = LUndefined, cfg_defaultLocale = LUndefined,
                    cfg_formats = formats, cfg_defaultFormats = formats,
                    cfg_messages = messagesMap_get s (property_key LUndefined) \<rparr>"
  have "cfg_locale ?config = LUndefined \<or> cfg_locale ?config = LNull"
    by simp
  with assms(2) [unfolded reports_missing_locale_def, rule_format, of ?config]
  obtain err where
    err: "find (\<lambda>e. err_code e \<noteq> Some MISSING_TRANSLATION)
            (construct_reports engine ?config) = Some err"
      "err_code err = Some INVALID_CONFIG"
    by blast
  from err(1) have "report_all (construct_reports engine ?config) = Inl (IntlError err)"
    by (simp add: report_all_find)
  with no_handle_without_locale [OF assms]
  have "createIntl engine s LUndefined formats = Inl (IntlError err)"
    by (simp add: createIntl_def)
  with err(2) show ?thesis
    by blast
qed

text \<open>
  C9.  In each of the five formatting entry points the engine is the one that \<open>getIntl\<close>
  gives for the locale the entry point resolved; for a sequence with a first element it
  is the engine for that element.  For the empty sequence the service asks for the
  engine of the locale \<open>undefined\<close>.  With an engine that reports a configuration without
  a locale, as the one of \<open>@formatjs/intl\<close> does, that construction fails in every state
  that a service can be in: \<open>onIntlError\<close> throws the engine's report, and the entry
  point fails with it and leaves the state as it was.
\<close>

theorem formatter_primary_locale:
  assumes "reachable engine s" and "reports_missing_locale engine"
  shows "(format_locale s formatOptions = LNames (first # rest) \<longrightarrow>
            getIntl engine s (format_locale s formatOptions) =
              createIntl engine s (LName first) (svc_formats s)) \<and>
         serviceFormatterProxy engine name s v formatOptions =
           (case getIntl engine s (format_locale s formatOptions) of
              Inl e \<Rightarrow> (Inl e, s)
            | Inr (created, s') \<Rightarrow>
                (case report_all (format_reports engine name created v formatOptions) of
                   Inl e \<Rightarrow> (Inl e, s')
                 | Inr u \<Rightarrow> (Inr (format_output engine name created v formatOptions), s'))) \<and>
         (format_locale s formatOptions = LNames [] \<longrightarrow>
            (\<exists>err. serviceFormatterProxy engine name s v formatOptions =
                     (Inl (IntlError err), s) \<and>
                   err_code err = Some INVALID_CONFIG))"
proof -
  have unfolded: "serviceFormatterProxy engine name s v formatOptions =
     (case getIntl engine s (format_locale s formatOptions) of
        Inl e \<Rightarrow> (Inl e, s)
      | Inr (created, s') \<Rightarrow>
          (case report_all (format_reports engine name created v formatOptions) of
             Inl e \<Rightarrow> (Inl e, s')
           | Inr u \<Rightarrow> (Inr (format_output engine name created v formatOptions), s')))"
    by (simp add: serviceFormatterProxy_def formatter_format_def)
  have first: "getIntl engine s (format_locale s formatOptions) =
                 createIntl engine s (LName first) (svc_formats s)"
    if "format_locale s formatOptions = LNames (first # rest)"
    using that by (simp add: getIntl_def)
  have empty: "\<exists>err. serviceFormatterProxy engine name s v formatOptions =
                      (Inl (IntlError err), s) \<and>
                    err_code err = Some INVALID_CONFIG"
    if none: "format_locale s formatOptions = LNames []"
  proof -
    from createIntl_without_locale [OF assms] obtain err where
      "createIntl engine s LUndefined (svc_formats s) = Inl (IntlError err)"
      "err_code err = Some INVALID_CONFIG"
      by blast
    with none show ?thesis
      by (simp add: serviceFormatterProxy_def formatter_format_def getIntl_def)
  qed
  show ?thesis
  proof (intro conjI impI)
    show "serviceFormatterProxy engine name s v formatOptions =
       (case getIntl engine s (format_locale s formatOptions) of
          Inl e \<Rightarrow> (Inl e, s)
        | Inr (created, s') \<Rightarrow>
            (case report_all (format_reports engine name created v formatOptions) of
               Inl e \<Rightarrow> (Inl e, s')
             | Inr u \<Rightarrow> (Inr (format_output engine name created v formatOptions), s')))"
      by (rule unfolded)
  qed (rule first empty, assumption)+
qed

text \<open>
  The example engine reports an invalid configuration when it is built for no locale.
  With the locale option \<open>FR\<close>, \<open>en\<close> on the example store the engine is the one for
  \<open>fr\<close>, and \<open>formatNumber\<close> returns.  After \<open>setLocale([])\<close> on a new service the
  candidates are the empty sequence, and \<open>formatNumber\<close> fails with the engine's report.
\<close>

theorem formatter_primary_locale_witness:
  "reachable strict_engine two_locales \<and> reachable strict_engine no_locales \<and>
   reports_missing_locale strict_engine \<and>
   format_locale two_locales (Some \<lparr>opt_locale = Arr [''FR'', ''en''], opt_more = ()\<rparr>) =
     LNames [''fr'', ''en''] \<and>
   getIntl strict_engine two_locales
       (format_locale two_locales (Some \<lparr>opt_locale = Arr [''FR'', ''en''], opt_more = ()\<rparr>)) =
     createIntl strict_engine two_locales (LName ''fr'') (svc_formats two_locales) \<and>
   fst (serviceFormatterProxy strict_engine FormatNumber two_locales ''5''
          (Some \<lparr>opt_locale = Arr [''FR'', ''en''], opt_more = ()\<rparr>)) = Inr ''fr:5'' \<and>
   setLocale (new_service () False) (Arr []) = Inr no_locales \<and>
   format_locale no_locales (None :: unit format_options option) = LNames [] \<and>
   serviceFormatterProxy strict_engine FormatNumber no_locales ''5'' None =
     (Inl (IntlError invalid_config), no_locales) \<and>
   err_code invalid_config = Some INVALID_CONFIG"
proof -
  let ?fo = "Some \<lparr>opt_locale = Arr [''FR'', ''en''], opt_more = ()\<rparr>"
  let ?none = "None :: unit format_options option"
  let ?new = "new_service () False"
  have start: "reachable strict_engine ?new"
    by (rule reachable.reach_new)
  have two: "reachable strict_engine two_locales"
    unfolding two_locales_def by (intro reachable.reach_add start)
  have "normalize_each (makeArray (Arr [])) = Inr []"
    by simp
  moreover have "svc_locale ?new \<noteq> Some []"
    by (simp add: new_service_def)
  ultimately have set: "setLocale ?new (Arr []) = Inr no_locales"
    using set_locale_changed [of "Arr []" "[]" ?new]
    by (simp add: no_locales_def setLocale_def)
  then have "set_locale ?new (Arr []) = Inr no_locales"
    by (simp add: setLocale_def)
  with start have none: "reachable strict_engine no_locales"
    by (rule reachable.reach_set)
  have strict: "reports_missing_locale strict_engine"
    by (auto simp: reports_missing_locale_def strict_engine_def invalid_config_def)
  have fr: "format_locale two_locales ?fo = LNames (''fr'' # [''en''])"
    by code_simp
  have empty: "format_locale no_locales ?none = LNames []"
    by code_simp
  note at_fr = formatter_primary_locale
    [OF two strict, of ?fo "''fr''" "[''en'']" FormatNumber "''5''"]
  note at_none = formatter_primary_locale
    [OF none strict, of ?none "''fr''" "[]" FormatNumber "''5''"]
  have selected:
    "getIntl strict_engine two_locales (format_locale two_locales ?fo) =
       createIntl strict_engine two_locales (LName ''fr'') (svc_formats two_locales)"
    using at_fr [THEN conjunct1, rule_format, OF fr] .
  have printed: "fst (serviceFormatterProxy strict_engine FormatNumber two_locales ''5'' ?fo) =
                  Inr ''fr:5''"
    by code_simp
  from at_none [THEN conjunct2, THEN conjunct2, rule_format, OF empty] obtain err where
    failed: "serviceFormatterProxy strict_engine FormatNumber no_locales ''5'' ?none =
               (Inl (IntlError err), no_locales)" and
    code: "err_code err = Some INVALID_CONFIG"
    by (elim exE conjE)
  have "fst (serviceFormatterProxy strict_engine FormatNumber no_locales ''5'' ?none) =
          Inl (IntlError invalid_config)"
    by code_simp
  with failed have "err = invalid_config"
    by simp
  with failed code have
    thrown: "serviceFormatterProxy strict_engine FormatNumber no_locales ''5'' ?none =
               (Inl (IntlError invalid_config), no_locales)" and
    kind: "err_code invalid_config = Some INVALID_CONFIG"
    by simp_all
  from fr have resolved: "format_locale two_locales ?fo = LNames [''fr'', ''en'']"
    by simp
  show ?thesis
    by (intro conjI two none strict resolved selected printed set empty thrown kind)
qed


end
